theory Spec2Isabelle
  imports Main "HOL-Library.Word" "HOL-Library.AList" "HOL-Library.Multiset"
begin

section \<open>SMBus over a Linux I2C character device\<close>

text \<open>
  A shallow embedding of the Go package \<open>smbus\<close>: the options-based implementation
  (\<open>src/unnamed/part_000\<close>) and the legacy implementation (\<open>src/smbus.go\<close>).

  The package talks to the operating system only through \<open>os.OpenFile\<close>, the
  \<open>ioctl\<close> system call and the file's \<open>Close\<close>, \<open>Write\<close> and \<open>Read\<close>. These
  are the external collaborator: they are a parameter of the model (an environment
  \<open>E\<close>, and \<open>F\<close> for the raw transfers, over an arbitrary kernel state), so every
  theorem holds for every kernel and every device.
  Each call the package issues is appended to a trace, which is how "which ioctl calls
  were performed, in which order" is observed.
\<close>

subsection \<open>Constants (part_000, lines 18-37)\<close>

definition i2cSlave :: nat where "i2cSlave = 0x0703"
definition i2cSlaveForce :: nat where "i2cSlaveForce = 0x0706"
definition i2cFuncs :: nat where "i2cFuncs = 0x0705"
definition i2cSMBus :: nat where "i2cSMBus = 0x0720"

definition i2cSMBusWrite :: "8 word" where "i2cSMBusWrite = 0"
definition i2cSMBusRead :: "8 word" where "i2cSMBusRead = 1"

definition i2cSMBusByteData :: "32 word" where "i2cSMBusByteData = 2"
definition i2cSMBusWordData :: "32 word" where "i2cSMBusWordData = 3"
definition i2cSMBusBlockData :: "32 word" where "i2cSMBusBlockData = 5"
definition i2cSMBusI2CBlockData :: "32 word" where "i2cSMBusI2CBlockData = 8"
definition i2cSMBusBlockMax :: "32 word" where "i2cSMBusBlockMax = 32"

text \<open>
  Go \<open>error\<close> values. \<open>Errno\<close> is a \<open>syscall.Errno\<close> coming out of \<open>ioctl\<close>;
  \<open>OsError\<close> is whatever \<open>os.OpenFile\<close> or \<open>(*os.File).Close\<close> reports;
  \<open>ErrorsNew\<close> is a package-level sentinel made with \<open>errors.New\<close>; \<open>Errorf\<close> is a
  fresh error made with \<open>fmt.Errorf\<close>.
\<close>

datatype error = Errno nat | OsError nat | ErrorsNew string | Errorf string

definition errSMBusBlockDataMax :: error where
  "errSMBusBlockDataMax = ErrorsNew ''smbus: buffer slice too big''"

subsection \<open>Data (part_000, lines 39-54 and 305-310)\<close>

text \<open>
  \<open>i2cCmd\<close>: the transfer descriptor handed to the kernel. The field \<open>ptr\<close> is an
  \<open>unsafe.Pointer\<close> in the source; the model carries the bytes it points to (the
  visible length of the pointee: one byte for a \<open>uint8\<close>, two for a \<open>uint16\<close>,
  \<open>len(data)\<close> for a slice).
\<close>

record i2cCmd =
  rw :: "8 word"
  cmd :: "8 word"
  len :: "32 word"
  ptr :: "8 word list"

text \<open>
  \<open>Options\<close>. A Go slice can be \<open>nil\<close> or empty, and the source tells them apart
  (\<open>opts.BackupRestoreRegs != nil\<close>), so the field is an optional list.
\<close>

record Options =
  Force :: bool
  BackupRestoreRegs :: "8 word list option"

text \<open>
  \<open>Conn\<close>. The file \<open>f\<close> is the handle the environment returned (its \<open>Fd()\<close> is the
  handle itself). The Go map \<open>backupRegs\<close> is an association list with distinct keys,
  written with \<open>AList.update\<close>; the order in which \<open>range\<close> visits it is chosen by the
  environment (\<open>map_range\<close> below).
\<close>

record Conn =
  conn_f :: nat
  force :: bool
  backupRegs :: "(8 word \<times> 8 word) list"
  backupaddr :: "8 word"

subsection \<open>The environment: operating system, kernel and Go runtime\<close>

text \<open>
  The third argument of \<open>ioctl\<close> is a \<open>uintptr\<close>: either the integer
  \<open>uintptr(addr)\<close> or the address of an \<open>i2cCmd\<close>.
\<close>

datatype ioctl_arg = ArgInt nat | ArgCmd i2cCmd

datatype event =
  EvOpen int | EvIoctl nat nat ioctl_arg | EvClose nat
  | EvWrite nat "8 word list" | EvRead nat nat

text \<open>
  \<^item> \<open>sys_open s bus\<close>: \<open>os.OpenFile("/dev/i2c-<bus>", os.O_RDWR, 0600)\<close>, an error
    or a file handle;
  \<^item> \<open>sys_ioctl s fd code arg\<close>: the system call; it returns the errno (0 for
    success) and the bytes the kernel stored at the descriptor's data pointer;
  \<^item> \<open>sys_close s fd\<close>: \<open>(*os.File).Close\<close>;
  \<^item> \<open>map_range m\<close>: the order in which a \<open>range\<close> over the map \<open>m\<close> visits its
    entries (unspecified in Go).
\<close>

record 's env =
  sys_open :: "'s \<Rightarrow> int \<Rightarrow> (error + nat) \<times> 's"
  sys_ioctl :: "'s \<Rightarrow> nat \<Rightarrow> nat \<Rightarrow> ioctl_arg \<Rightarrow> (nat \<times> 8 word list) \<times> 's"
  sys_close :: "'s \<Rightarrow> nat \<Rightarrow> error option \<times> 's"
  map_range :: "(8 word \<times> 8 word) list \<Rightarrow> (8 word \<times> 8 word) list"

record 's world =
  kstate :: 's
  trace :: "event list"

definition os_OpenFile :: "'s env \<Rightarrow> 's world \<Rightarrow> int \<Rightarrow> 's world \<times> (error + nat)" where
  "os_OpenFile E w bus =
     (case sys_open E (kstate w) bus of
        (r, s') \<Rightarrow> (\<lparr>kstate = s', trace = trace w @ [EvOpen bus]\<rparr>, r))"

definition file_Close :: "'s env \<Rightarrow> 's world \<Rightarrow> nat \<Rightarrow> 's world \<times> error option" where
  "file_Close E w fd =
     (case sys_close E (kstate w) fd of
        (r, s') \<Rightarrow> (\<lparr>kstate = s', trace = trace w @ [EvClose fd]\<rparr>, r))"

text \<open>
  \<open>ioctl\<close> (part_000, lines 297-303): the error is the errno when it is not 0.
  The third component is what the kernel stored through the data pointer.
\<close>

definition ioctl ::
  "'s env \<Rightarrow> 's world \<Rightarrow> nat \<Rightarrow> nat \<Rightarrow> ioctl_arg \<Rightarrow> 's world \<times> error option \<times> 8 word list" where
  "ioctl E w fd code arg =
     (case sys_ioctl E (kstate w) fd code arg of
        ((e1, mem), s') \<Rightarrow>
          (\<lparr>kstate = s', trace = trace w @ [EvIoctl fd code arg]\<rparr>,
           (if e1 \<noteq> 0 then Some (Errno e1) else None), mem))"

text \<open>
  The bytes \<open>new\<close> stored by the kernel at the start of a pointee whose visible
  bytes are \<open>old\<close>: bytes the kernel did not write keep their value, bytes
  written past the visible length are not seen by the program.
\<close>

definition poke :: "8 word list \<Rightarrow> 8 word list \<Rightarrow> 8 word list" where
  "poke old new = take (length old) (new @ drop (length new) old)"

text \<open>Go's \<open>copy(dst, src)\<close> and the slice expression \<open>xs[lo:hi]\<close> (in range).\<close>

definition go_copy :: "'a list \<Rightarrow> 'a list \<Rightarrow> 'a list" where
  "go_copy dst src =
     (let n = min (length dst) (length src) in take n src @ drop n dst)"

definition go_slice :: "'a list \<Rightarrow> nat \<Rightarrow> nat \<Rightarrow> 'a list" where
  "go_slice xs lo hi = take (hi - lo) (drop lo xs)"

text \<open>A \<open>uint16\<close> in memory, in the byte order of the (little-endian) platform.\<close>

definition word_bytes :: "16 word \<Rightarrow> 8 word list" where
  "word_bytes v = [ucast v, ucast (drop_bit 8 v)]"

definition bytes_word :: "8 word list \<Rightarrow> 16 word" where
  "bytes_word bs = ucast (bs ! 0) + push_bit 8 (ucast (bs ! 1))"

subsection \<open>Register transactions (part_000, lines 165-231 and 285-295)\<close>

definition Conn_addr :: "'s env \<Rightarrow> 's world \<Rightarrow> Conn \<Rightarrow> 8 word \<Rightarrow> 's world \<times> error option" where
  "Conn_addr E w c a =
     (if force c
      then (case ioctl E w (conn_f c) i2cSlaveForce (ArgInt (unat a)) of (w1, err, _) \<Rightarrow> (w1, err))
      else (case ioctl E w (conn_f c) i2cSlave (ArgInt (unat a)) of (w1, err, _) \<Rightarrow> (w1, err)))"

definition SetAddr :: "'s env \<Rightarrow> 's world \<Rightarrow> Conn \<Rightarrow> 8 word \<Rightarrow> 's world \<times> error option" where
  "SetAddr E w c a = Conn_addr E w c a"

definition ReadReg ::
  "'s env \<Rightarrow> 's world \<Rightarrow> Conn \<Rightarrow> 8 word \<Rightarrow> 8 word \<Rightarrow> 's world \<times> 8 word \<times> error option" where
  "ReadReg E w c a reg =
     (case Conn_addr E w c a of
        (w1, Some err) \<Rightarrow> (w1, 0, Some err)
      | (w1, None) \<Rightarrow>
          (case ioctl E w1 (conn_f c) i2cSMBus
                  (ArgCmd \<lparr>rw = i2cSMBusRead, cmd = reg, len = i2cSMBusByteData, ptr = [0]\<rparr>) of
             (w2, err, mem) \<Rightarrow> (w2, hd (poke [0] mem), err)))"

definition WriteReg ::
  "'s env \<Rightarrow> 's world \<Rightarrow> Conn \<Rightarrow> 8 word \<Rightarrow> 8 word \<Rightarrow> 8 word \<Rightarrow> 's world \<times> error option" where
  "WriteReg E w c a reg v =
     (case Conn_addr E w c a of
        (w1, Some err) \<Rightarrow> (w1, Some err)
      | (w1, None) \<Rightarrow>
          (case ioctl E w1 (conn_f c) i2cSMBus
                  (ArgCmd \<lparr>rw = i2cSMBusWrite, cmd = reg, len = i2cSMBusByteData, ptr = [v]\<rparr>) of
             (w2, err, _) \<Rightarrow> (w2, err)))"

definition ReadWord ::
  "'s env \<Rightarrow> 's world \<Rightarrow> Conn \<Rightarrow> 8 word \<Rightarrow> 8 word \<Rightarrow> 's world \<times> 16 word \<times> error option" where
  "ReadWord E w c a reg =
     (case Conn_addr E w c a of
        (w1, Some err) \<Rightarrow> (w1, 0, Some err)
      | (w1, None) \<Rightarrow>
          (case ioctl E w1 (conn_f c) i2cSMBus
                  (ArgCmd \<lparr>rw = i2cSMBusRead, cmd = reg, len = i2cSMBusWordData,
                           ptr = word_bytes 0\<rparr>) of
             (w2, err, mem) \<Rightarrow> (w2, bytes_word (poke (word_bytes 0) mem), err)))"

definition WriteWord ::
  "'s env \<Rightarrow> 's world \<Rightarrow> Conn \<Rightarrow> 8 word \<Rightarrow> 8 word \<Rightarrow> 16 word \<Rightarrow> 's world \<times> error option" where
  "WriteWord E w c a reg v =
     (case Conn_addr E w c a of
        (w1, Some err) \<Rightarrow> (w1, Some err)
      | (w1, None) \<Rightarrow>
          (case ioctl E w1 (conn_f c) i2cSMBus
                  (ArgCmd \<lparr>rw = i2cSMBusWrite, cmd = reg, len = i2cSMBusWordData,
                           ptr = word_bytes v\<rparr>) of
             (w2, err, _) \<Rightarrow> (w2, err)))"

subsection \<open>Block transactions (part_000, lines 233-283)\<close>

text \<open>
  \<open>ReadBlockData\<close> writes into the caller's slice; the model returns the slice's new
  contents as the third component. \<open>make([]byte, n, cap)\<close> is \<open>n\<close> zero bytes; the
  size check in front of it keeps \<open>n\<close> below the capacity 34.
\<close>

definition ReadBlockData ::
  "'s env \<Rightarrow> 's world \<Rightarrow> Conn \<Rightarrow> 8 word \<Rightarrow> 8 word \<Rightarrow> 8 word list
     \<Rightarrow> 's world \<times> error option \<times> 8 word list" where
  "ReadBlockData E w c a reg buf =
     (if length buf > unat i2cSMBusBlockMax then (w, Some errSMBusBlockDataMax, buf)
      else
        (case Conn_addr E w c a of
           (w1, Some err) \<Rightarrow> (w1, Some err, buf)
         | (w1, None) \<Rightarrow>
             (let data = (replicate (length buf + 1) 0)[0 := of_nat (length buf)] in
              (case ioctl E w1 (conn_f c) i2cSMBus
                      (ArgCmd \<lparr>rw = i2cSMBusRead, cmd = reg, len = i2cSMBusI2CBlockData,
                               ptr = data\<rparr>) of
                 (w2, Some err, mem) \<Rightarrow> (w2, Some err, buf)
               | (w2, None, mem) \<Rightarrow>
                   (w2, None,
                    go_copy (go_slice buf 0 (length buf))
                            (go_slice (poke data mem) 1 (length buf + 1)))))))"

definition WriteBlockData ::
  "'s env \<Rightarrow> 's world \<Rightarrow> Conn \<Rightarrow> 8 word \<Rightarrow> 8 word \<Rightarrow> 8 word list \<Rightarrow> 's world \<times> error option" where
  "WriteBlockData E w c a reg buf =
     (if length buf > unat i2cSMBusBlockMax then (w, Some errSMBusBlockDataMax)
      else
        (case Conn_addr E w c a of
           (w1, Some err) \<Rightarrow> (w1, Some err)
         | (w1, None) \<Rightarrow>
             (let data0 = (replicate (1 + length buf) 0)[0 := of_nat (length buf)];
                  data = take 1 data0 @ go_copy (drop 1 data0) buf in
              (case ioctl E w1 (conn_f c) i2cSMBus
                      (ArgCmd \<lparr>rw = i2cSMBusWrite, cmd = reg, len = i2cSMBusI2CBlockData,
                               ptr = data\<rparr>) of
                 (w2, err, _) \<Rightarrow> (w2, err)))))"

subsection \<open>Opening and closing (part_000, lines 56-131 and 152-163)\<close>

text \<open>
  A \<open>*Options\<close> argument can be \<open>nil\<close>: it is an optional value, and both open
  functions test it before the first dereference.
\<close>

definition OpenFileWithOptions ::
  "'s env \<Rightarrow> 's world \<Rightarrow> int \<Rightarrow> Options option \<Rightarrow> 's world \<times> (error + Conn)" where
  "OpenFileWithOptions E w bus opts =
     (case opts of
        None \<Rightarrow> (w, Inl (Errorf ''opts is nil''))
      | Some opt \<Rightarrow>
          (if BackupRestoreRegs opt \<noteq> None \<and> length (the (BackupRestoreRegs opt)) > 0
           then (w, Inl (Errorf ''option BackupRestoreRegs is not supported with OpenFile()''))
           else
             (case os_OpenFile E w bus of
                (w1, Inl err) \<Rightarrow> (w1, Inl err)
              | (w1, Inr fd) \<Rightarrow>
                  (w1, Inr \<lparr>conn_f = fd, force = Force opt, backupRegs = [],
                            backupaddr = 0\<rparr>))))"

definition OpenFile :: "'s env \<Rightarrow> 's world \<Rightarrow> int \<Rightarrow> 's world \<times> (error + Conn)" where
  "OpenFile E w bus =
     OpenFileWithOptions E w bus (Some \<lparr>Force = False, BackupRestoreRegs = None\<rparr>)"

text \<open>
  \<open>Close\<close>: the loop over the backup map, in the order the runtime's \<open>range\<close>
  yields, with its early \<open>return c.f.Close()\<close> on the first failed write.
\<close>

fun Close_loop ::
  "'s env \<Rightarrow> 's world \<Rightarrow> Conn \<Rightarrow> (8 word \<times> 8 word) list \<Rightarrow> 's world \<times> error option" where
  "Close_loop E w c [] = file_Close E w (conn_f c)"
| "Close_loop E w c ((k, v) # kvs) =
     (case WriteReg E w c (backupaddr c) k v of
        (w1, Some err) \<Rightarrow> file_Close E w1 (conn_f c)
      | (w1, None) \<Rightarrow> Close_loop E w1 c kvs)"

definition Close :: "'s env \<Rightarrow> 's world \<Rightarrow> Conn \<Rightarrow> 's world \<times> error option" where
  "Close E w c = Close_loop E w c (map_range E (backupRegs c))"

text \<open>
  The backup loop of \<open>OpenWithOptions\<close> (lines 110-118): one \<open>ReadReg\<close> per listed
  register; a failed read closes the connection and returns the read's error.
\<close>

fun backup_loop ::
  "'s env \<Rightarrow> 's world \<Rightarrow> Conn \<Rightarrow> 8 word \<Rightarrow> 8 word list \<Rightarrow> 's world \<times> (error + Conn)" where
  "backup_loop E w c a [] = (w, Inr c)"
| "backup_loop E w c a (i # rest) =
     (case ReadReg E w c a i of
        (w1, reg, Some err) \<Rightarrow> (fst (Close E w1 c), Inl err)
      | (w1, reg, None) \<Rightarrow>
          backup_loop E w1 (c\<lparr>backupRegs := AList.update i reg (backupRegs c)\<rparr>) a rest)"

definition OpenWithOptions ::
  "'s env \<Rightarrow> 's world \<Rightarrow> int \<Rightarrow> 8 word \<Rightarrow> Options option \<Rightarrow> 's world \<times> (error + Conn)" where
  "OpenWithOptions E w bus a opts =
     (case opts of
        None \<Rightarrow> (w, Inl (Errorf ''opts is nil''))
      | Some opt \<Rightarrow>
          (let optsOpenFile = \<lparr>Force = Force opt, BackupRestoreRegs = None\<rparr> in
           (case OpenFileWithOptions E w bus (Some optsOpenFile) of
              (w1, Inl err) \<Rightarrow> (w1, Inl err)
            | (w1, Inr c) \<Rightarrow>
                (case Conn_addr E w1 c a of
                   (w2, Some err) \<Rightarrow> (fst (Close E w2 c), Inl err)
                 | (w2, None) \<Rightarrow>
                     (case BackupRestoreRegs opt of
                        None \<Rightarrow> (w2, Inr c)
                      | Some regs \<Rightarrow> backup_loop E w2 (c\<lparr>backupaddr := a\<rparr>) a regs)))))"

definition Open :: "'s env \<Rightarrow> 's world \<Rightarrow> int \<Rightarrow> 8 word \<Rightarrow> 's world \<times> (error + Conn)" where
  "Open E w bus a =
     OpenWithOptions E w bus a (Some \<lparr>Force = False, BackupRestoreRegs = Some []\<rparr>)"

subsection \<open>The legacy implementation (smbus.go)\<close>

record legacy_Conn =
  legacy_f :: nat

definition legacy_Open ::
  "'s env \<Rightarrow> 's world \<Rightarrow> int \<Rightarrow> 8 word \<Rightarrow> 's world \<times> (error + legacy_Conn)" where
  "legacy_Open E w bus a =
     (case os_OpenFile E w bus of
        (w1, Inl err) \<Rightarrow> (w1, Inl err)
      | (w1, Inr fd) \<Rightarrow>
          (case ioctl E w1 fd i2cSlave (ArgInt (unat a)) of
             (w2, Some err, _) \<Rightarrow> (w2, Inl err)
           | (w2, None, _) \<Rightarrow> (w2, Inr \<lparr>legacy_f = fd\<rparr>)))"

definition legacy_Close :: "'s env \<Rightarrow> 's world \<Rightarrow> legacy_Conn \<Rightarrow> 's world \<times> error option" where
  "legacy_Close E w c = file_Close E w (legacy_f c)"

definition legacy_addr ::
  "'s env \<Rightarrow> 's world \<Rightarrow> legacy_Conn \<Rightarrow> 8 word \<Rightarrow> 's world \<times> error option" where
  "legacy_addr E w c a =
     (case ioctl E w (legacy_f c) i2cSlave (ArgInt (unat a)) of (w1, err, _) \<Rightarrow> (w1, err))"

definition legacy_ReadReg ::
  "'s env \<Rightarrow> 's world \<Rightarrow> legacy_Conn \<Rightarrow> 8 word \<Rightarrow> 8 word \<Rightarrow> 's world \<times> 8 word \<times> error option" where
  "legacy_ReadReg E w c a reg =
     (case legacy_addr E w c a of
        (w1, Some err) \<Rightarrow> (w1, 0, Some err)
      | (w1, None) \<Rightarrow>
          (case ioctl E w1 (legacy_f c) i2cSMBus
                  (ArgCmd \<lparr>rw = i2cSMBusRead, cmd = reg, len = i2cSMBusByteData, ptr = [0]\<rparr>) of
             (w2, err, mem) \<Rightarrow> (w2, hd (poke [0] mem), err)))"

definition legacy_WriteReg ::
  "'s env \<Rightarrow> 's world \<Rightarrow> legacy_Conn \<Rightarrow> 8 word \<Rightarrow> 8 word \<Rightarrow> 8 word \<Rightarrow> 's world \<times> error option" where
  "legacy_WriteReg E w c a reg v =
     (case legacy_addr E w c a of
        (w1, Some err) \<Rightarrow> (w1, Some err)
      | (w1, None) \<Rightarrow>
          (case ioctl E w1 (legacy_f c) i2cSMBus
                  (ArgCmd \<lparr>rw = i2cSMBusWrite, cmd = reg, len = i2cSMBusByteData, ptr = [v]\<rparr>) of
             (w2, err, _) \<Rightarrow> (w2, err)))"

definition legacy_ReadWord ::
  "'s env \<Rightarrow> 's world \<Rightarrow> legacy_Conn \<Rightarrow> 8 word \<Rightarrow> 8 word \<Rightarrow> 's world \<times> 16 word \<times> error option" where
  "legacy_ReadWord E w c a reg =
     (case legacy_addr E w c a of
        (w1, Some err) \<Rightarrow> (w1, 0, Some err)
      | (w1, None) \<Rightarrow>
          (case ioctl E w1 (legacy_f c) i2cSMBus
                  (ArgCmd \<lparr>rw = i2cSMBusRead, cmd = reg, len = i2cSMBusWordData,
                           ptr = word_bytes 0\<rparr>) of
             (w2, err, mem) \<Rightarrow> (w2, bytes_word (poke (word_bytes 0) mem), err)))"

definition legacy_WriteWord ::
  "'s env \<Rightarrow> 's world \<Rightarrow> legacy_Conn \<Rightarrow> 8 word \<Rightarrow> 8 word \<Rightarrow> 16 word \<Rightarrow> 's world \<times> error option" where
  "legacy_WriteWord E w c a reg v =
     (case legacy_addr E w c a of
        (w1, Some err) \<Rightarrow> (w1, Some err)
      | (w1, None) \<Rightarrow>
          (case ioctl E w1 (legacy_f c) i2cSMBus
                  (ArgCmd \<lparr>rw = i2cSMBusWrite, cmd = reg, len = i2cSMBusWordData,
                           ptr = word_bytes v\<rparr>) of
             (w2, err, _) \<Rightarrow> (w2, err)))"

subsection \<open>Raw transfers (part_000, lines 133-150)\<close>

text \<open>
  \<open>Write\<close>, \<open>WriteByte\<close> and \<open>Read\<close> hand their argument to the file. The file's
  own \<open>Write\<close> and \<open>Read\<close> are part of the environment: \<open>sys_write s fd buf\<close>
  returns the count and the error, \<open>sys_read s fd p\<close> returns the count, the error
  and the bytes stored into \<open>p\<close>.
\<close>

record 's rawio =
  sys_write :: "'s \<Rightarrow> nat \<Rightarrow> 8 word list \<Rightarrow> (int \<times> error option) \<times> 's"
  sys_read :: "'s \<Rightarrow> nat \<Rightarrow> 8 word list \<Rightarrow> (int \<times> error option \<times> 8 word list) \<times> 's"

definition file_Write ::
  "'s rawio \<Rightarrow> 's world \<Rightarrow> nat \<Rightarrow> 8 word list \<Rightarrow> 's world \<times> int \<times> error option" where
  "file_Write F w fd buf =
     (case sys_write F (kstate w) fd buf of
        ((n, err), s') \<Rightarrow> (\<lparr>kstate = s', trace = trace w @ [EvWrite fd buf]\<rparr>, n, err))"

definition file_Read ::
  "'s rawio \<Rightarrow> 's world \<Rightarrow> nat \<Rightarrow> 8 word list
     \<Rightarrow> 's world \<times> int \<times> error option \<times> 8 word list" where
  "file_Read F w fd p =
     (case sys_read F (kstate w) fd p of
        ((n, err, mem), s') \<Rightarrow>
          (\<lparr>kstate = s', trace = trace w @ [EvRead fd (length p)]\<rparr>, n, err, poke p mem))"

definition Write ::
  "'s rawio \<Rightarrow> 's world \<Rightarrow> Conn \<Rightarrow> 8 word list \<Rightarrow> 's world \<times> int \<times> error option" where
  "Write F w c buf = file_Write F w (conn_f c) buf"

definition WriteByte ::
  "'s rawio \<Rightarrow> 's world \<Rightarrow> Conn \<Rightarrow> 8 word \<Rightarrow> 's world \<times> int \<times> error option" where
  "WriteByte F w c b =
     (let buf = (replicate 1 0)[0 := b] in file_Write F w (conn_f c) (go_slice buf 0 (length buf)))"

definition Read ::
  "'s rawio \<Rightarrow> 's world \<Rightarrow> Conn \<Rightarrow> 8 word list
     \<Rightarrow> 's world \<times> int \<times> error option \<times> 8 word list" where
  "Read F w c p = file_Read F w (conn_f c) p"

subsection \<open>The public operations with their panics\<close>

text \<open>
  A Go call either returns or panics. The constructs of this package that can panic
  are: the dereference of a nil pointer (\<open>opts.Force\<close>, \<open>c.f\<close>, \<open>c.force\<close>,
  \<open>c.backupRegs\<close>, \<open>c.backupaddr\<close>), \<open>make\<close> with a length above the capacity, an
  index or slice expression out of range, and a store into a nil map. Here every
  public operation is written once more with these constructs explicit: a \<open>*Options\<close>
  and a receiver \<open>*Conn\<close> are optional values (\<open>None\<close> is \<open>nil\<close>), and each
  dereference, \<open>make\<close>, index and slice expression of the source is a step that can
  end in \<open>Panic\<close>. The methods of a nil \<open>*os.File\<close> return an error and do not
  panic; they are the environment's. The map \<open>backupRegs\<close> is made by the literal
  \<open>map[uint8]uint8{}\<close> in \<open>OpenFileWithOptions\<close> before \<open>OpenWithOptions\<close> stores
  into it, and a \<open>range\<close> over a nil map visits nothing.
\<close>

datatype 'a go = Panic | Return 'a

definition deref :: "'a option \<Rightarrow> 'a go" where
  "deref p = (case p of None \<Rightarrow> Panic | Some x \<Rightarrow> Return x)"

definition go_make :: "nat \<Rightarrow> nat \<Rightarrow> 8 word list go" where
  "go_make n cap = (if n > cap then Panic else Return (replicate n 0))"

definition go_store :: "'a list \<Rightarrow> nat \<Rightarrow> 'a \<Rightarrow> 'a list go" where
  "go_store xs i v = (if i < length xs then Return (xs[i := v]) else Panic)"

text \<open>\<open>&xs[i]\<close>: the memory from element \<open>i\<close> on.\<close>

definition go_addr_of :: "'a list \<Rightarrow> nat \<Rightarrow> 'a list go" where
  "go_addr_of xs i = (if i < length xs then Return (drop i xs) else Panic)"

text \<open>
  \<open>xs[lo:hi]\<close>. Go allows \<open>hi\<close> up to the capacity; the bound used here is the
  length, which is not larger.
\<close>

definition go_reslice :: "'a list \<Rightarrow> nat \<Rightarrow> nat \<Rightarrow> 'a list go" where
  "go_reslice xs lo hi =
     (if lo \<le> hi \<and> hi \<le> length xs then Return (go_slice xs lo hi) else Panic)"

definition go_OpenFileWithOptions ::
  "'s env \<Rightarrow> 's world \<Rightarrow> int \<Rightarrow> Options option \<Rightarrow> ('s world \<times> (error + Conn)) go" where
  "go_OpenFileWithOptions E w bus opts =
     (if opts = None then Return (w, Inl (Errorf ''opts is nil''))
      else
        (case deref opts of
           Panic \<Rightarrow> Panic
         | Return opt \<Rightarrow>
             (if BackupRestoreRegs opt \<noteq> None \<and> length (the (BackupRestoreRegs opt)) > 0
              then Return (w, Inl (Errorf ''option BackupRestoreRegs is not supported with OpenFile()''))
              else
                (case os_OpenFile E w bus of
                   (w1, Inl err) \<Rightarrow> Return (w1, Inl err)
                 | (w1, Inr fd) \<Rightarrow>
                     Return (w1, Inr \<lparr>conn_f = fd, force = Force opt, backupRegs = [],
                                      backupaddr = 0\<rparr>)))))"

definition go_OpenFile :: "'s env \<Rightarrow> 's world \<Rightarrow> int \<Rightarrow> ('s world \<times> (error + Conn)) go" where
  "go_OpenFile E w bus =
     go_OpenFileWithOptions E w bus (Some \<lparr>Force = False, BackupRestoreRegs = None\<rparr>)"

definition go_Conn_addr ::
  "'s env \<Rightarrow> 's world \<Rightarrow> Conn option \<Rightarrow> 8 word \<Rightarrow> ('s world \<times> error option) go" where
  "go_Conn_addr E w cp a =
     (case deref cp of
        Panic \<Rightarrow> Panic
      | Return c \<Rightarrow>
          (if force c
           then (case ioctl E w (conn_f c) i2cSlaveForce (ArgInt (unat a)) of
                   (w1, err, _) \<Rightarrow> Return (w1, err))
           else (case ioctl E w (conn_f c) i2cSlave (ArgInt (unat a)) of
                   (w1, err, _) \<Rightarrow> Return (w1, err))))"

definition go_SetAddr ::
  "'s env \<Rightarrow> 's world \<Rightarrow> Conn option \<Rightarrow> 8 word \<Rightarrow> ('s world \<times> error option) go" where
  "go_SetAddr E w cp a = go_Conn_addr E w cp a"

definition go_ReadReg ::
  "'s env \<Rightarrow> 's world \<Rightarrow> Conn option \<Rightarrow> 8 word \<Rightarrow> 8 word
     \<Rightarrow> ('s world \<times> 8 word \<times> error option) go" where
  "go_ReadReg E w cp a reg =
     (case go_Conn_addr E w cp a of
        Panic \<Rightarrow> Panic
      | Return (w1, Some err) \<Rightarrow> Return (w1, 0, Some err)
      | Return (w1, None) \<Rightarrow>
          (case deref cp of
             Panic \<Rightarrow> Panic
           | Return c \<Rightarrow>
               (case ioctl E w1 (conn_f c) i2cSMBus
                       (ArgCmd \<lparr>rw = i2cSMBusRead, cmd = reg, len = i2cSMBusByteData,
                                ptr = [0]\<rparr>) of
                  (w2, err, mem) \<Rightarrow> Return (w2, hd (poke [0] mem), err))))"

definition go_WriteReg ::
  "'s env \<Rightarrow> 's world \<Rightarrow> Conn option \<Rightarrow> 8 word \<Rightarrow> 8 word \<Rightarrow> 8 word
     \<Rightarrow> ('s world \<times> error option) go" where
  "go_WriteReg E w cp a reg v =
     (case go_Conn_addr E w cp a of
        Panic \<Rightarrow> Panic
      | Return (w1, Some err) \<Rightarrow> Return (w1, Some err)
      | Return (w1, None) \<Rightarrow>
          (case deref cp of
             Panic \<Rightarrow> Panic
           | Return c \<Rightarrow>
               (case ioctl E w1 (conn_f c) i2cSMBus
                       (ArgCmd \<lparr>rw = i2cSMBusWrite, cmd = reg, len = i2cSMBusByteData,
                                ptr = [v]\<rparr>) of
                  (w2, err, _) \<Rightarrow> Return (w2, err))))"

definition go_ReadWord ::
  "'s env \<Rightarrow> 's world \<Rightarrow> Conn option \<Rightarrow> 8 word \<Rightarrow> 8 word
     \<Rightarrow> ('s world \<times> 16 word \<times> error option) go" where
  "go_ReadWord E w cp a reg =
     (case go_Conn_addr E w cp a of
        Panic \<Rightarrow> Panic
      | Return (w1, Some err) \<Rightarrow> Return (w1, 0, Some err)
      | Return (w1, None) \<Rightarrow>
          (case deref cp of
             Panic \<Rightarrow> Panic
           | Return c \<Rightarrow>
               (case ioctl E w1 (conn_f c) i2cSMBus
                       (ArgCmd \<lparr>rw = i2cSMBusRead, cmd = reg, len = i2cSMBusWordData,
                                ptr = word_bytes 0\<rparr>) of
                  (w2, err, mem) \<Rightarrow>
                    Return (w2, bytes_word (poke (word_bytes 0) mem), err))))"

definition go_WriteWord ::
  "'s env \<Rightarrow> 's world \<Rightarrow> Conn option \<Rightarrow> 8 word \<Rightarrow> 8 word \<Rightarrow> 16 word
     \<Rightarrow> ('s world \<times> error option) go" where
  "go_WriteWord E w cp a reg v =
     (case go_Conn_addr E w cp a of
        Panic \<Rightarrow> Panic
      | Return (w1, Some err) \<Rightarrow> Return (w1, Some err)
      | Return (w1, None) \<Rightarrow>
          (case deref cp of
             Panic \<Rightarrow> Panic
           | Return c \<Rightarrow>
               (case ioctl E w1 (conn_f c) i2cSMBus
                       (ArgCmd \<lparr>rw = i2cSMBusWrite, cmd = reg, len = i2cSMBusWordData,
                                ptr = word_bytes v\<rparr>) of
                  (w2, err, _) \<Rightarrow> Return (w2, err))))"

definition go_ReadBlockData ::
  "'s env \<Rightarrow> 's world \<Rightarrow> Conn option \<Rightarrow> 8 word \<Rightarrow> 8 word \<Rightarrow> 8 word list
     \<Rightarrow> ('s world \<times> error option \<times> 8 word list) go" where
  "go_ReadBlockData E w cp a reg buf =
     (if length buf > unat i2cSMBusBlockMax then Return (w, Some errSMBusBlockDataMax, buf)
      else
        (case go_Conn_addr E w cp a of
           Panic \<Rightarrow> Panic
         | Return (w1, Some err) \<Rightarrow> Return (w1, Some err, buf)
         | Return (w1, None) \<Rightarrow>
             (case go_make (length buf + 1) (unat (i2cSMBusBlockMax + 2)) of
                Panic \<Rightarrow> Panic
              | Return data0 \<Rightarrow>
             (case go_store data0 0 (of_nat (length buf)) of
                Panic \<Rightarrow> Panic
              | Return data \<Rightarrow>
             (case go_addr_of data 0 of
                Panic \<Rightarrow> Panic
              | Return p \<Rightarrow>
             (case deref cp of
                Panic \<Rightarrow> Panic
              | Return c \<Rightarrow>
             (case ioctl E w1 (conn_f c) i2cSMBus
                     (ArgCmd \<lparr>rw = i2cSMBusRead, cmd = reg, len = i2cSMBusI2CBlockData,
                              ptr = p\<rparr>) of
                (w2, Some err, mem) \<Rightarrow> Return (w2, Some err, buf)
              | (w2, None, mem) \<Rightarrow>
             (case go_reslice buf 0 (length buf) of
                Panic \<Rightarrow> Panic
              | Return dst \<Rightarrow>
             (case go_reslice (poke data mem) 1 (length buf + 1) of
                Panic \<Rightarrow> Panic
              | Return src \<Rightarrow> Return (w2, None, go_copy dst src))))))))))"

definition go_WriteBlockData ::
  "'s env \<Rightarrow> 's world \<Rightarrow> Conn option \<Rightarrow> 8 word \<Rightarrow> 8 word \<Rightarrow> 8 word list
     \<Rightarrow> ('s world \<times> error option) go" where
  "go_WriteBlockData E w cp a reg buf =
     (if length buf > unat i2cSMBusBlockMax then Return (w, Some errSMBusBlockDataMax)
      else
        (case go_Conn_addr E w cp a of
           Panic \<Rightarrow> Panic
         | Return (w1, Some err) \<Rightarrow> Return (w1, Some err)
         | Return (w1, None) \<Rightarrow>
             (case go_make (1 + length buf) (unat (i2cSMBusBlockMax + 2)) of
                Panic \<Rightarrow> Panic
              | Return data00 \<Rightarrow>
             (case go_store data00 0 (of_nat (length buf)) of
                Panic \<Rightarrow> Panic
              | Return data0 \<Rightarrow>
             (case go_reslice data0 1 (length data0) of
                Panic \<Rightarrow> Panic
              | Return dst \<Rightarrow>
             (let data = take 1 data0 @ go_copy dst buf in
             (case go_addr_of data 0 of
                Panic \<Rightarrow> Panic
              | Return p \<Rightarrow>
             (case deref cp of
                Panic \<Rightarrow> Panic
              | Return c \<Rightarrow>
             (case ioctl E w1 (conn_f c) i2cSMBus
                     (ArgCmd \<lparr>rw = i2cSMBusWrite, cmd = reg, len = i2cSMBusI2CBlockData,
                              ptr = p\<rparr>) of
                (w2, err, _) \<Rightarrow> Return (w2, err))))))))))"

fun go_Close_loop ::
  "'s env \<Rightarrow> 's world \<Rightarrow> Conn option \<Rightarrow> (8 word \<times> 8 word) list
     \<Rightarrow> ('s world \<times> error option) go" where
  "go_Close_loop E w cp [] =
     (case deref cp of
        Panic \<Rightarrow> Panic
      | Return c \<Rightarrow> Return (file_Close E w (conn_f c)))"
| "go_Close_loop E w cp ((k, v) # kvs) =
     (case deref cp of
        Panic \<Rightarrow> Panic
      | Return c \<Rightarrow>
          (case go_WriteReg E w cp (backupaddr c) k v of
             Panic \<Rightarrow> Panic
           | Return (w1, Some err) \<Rightarrow> Return (file_Close E w1 (conn_f c))
           | Return (w1, None) \<Rightarrow> go_Close_loop E w1 cp kvs))"

definition go_Close ::
  "'s env \<Rightarrow> 's world \<Rightarrow> Conn option \<Rightarrow> ('s world \<times> error option) go" where
  "go_Close E w cp =
     (case deref cp of
        Panic \<Rightarrow> Panic
      | Return c \<Rightarrow> go_Close_loop E w cp (map_range E (backupRegs c)))"

text \<open>
  In \<open>OpenWithOptions\<close> the connection \<open>c\<close> is the pointer a successful
  \<open>OpenFileWithOptions\<close> returned, so it is not nil.
\<close>

fun go_backup_loop ::
  "'s env \<Rightarrow> 's world \<Rightarrow> Conn \<Rightarrow> 8 word \<Rightarrow> 8 word list \<Rightarrow> ('s world \<times> (error + Conn)) go" where
  "go_backup_loop E w c a [] = Return (w, Inr c)"
| "go_backup_loop E w c a (i # rest) =
     (case go_ReadReg E w (Some c) a i of
        Panic \<Rightarrow> Panic
      | Return (w1, reg, Some err) \<Rightarrow>
          (case go_Close E w1 (Some c) of
             Panic \<Rightarrow> Panic
           | Return (w2, _) \<Rightarrow> Return (w2, Inl err))
      | Return (w1, reg, None) \<Rightarrow>
          go_backup_loop E w1 (c\<lparr>backupRegs := AList.update i reg (backupRegs c)\<rparr>) a rest)"

definition go_OpenWithOptions ::
  "'s env \<Rightarrow> 's world \<Rightarrow> int \<Rightarrow> 8 word \<Rightarrow> Options option \<Rightarrow> ('s world \<times> (error + Conn)) go" where
  "go_OpenWithOptions E w bus a opts =
     (if opts = None then Return (w, Inl (Errorf ''opts is nil''))
      else
        (case deref opts of
           Panic \<Rightarrow> Panic
         | Return opt \<Rightarrow>
             (let optsOpenFile = \<lparr>Force = Force opt, BackupRestoreRegs = None\<rparr> in
              (case go_OpenFileWithOptions E w bus (Some optsOpenFile) of
                 Panic \<Rightarrow> Panic
               | Return (w1, Inl err) \<Rightarrow> Return (w1, Inl err)
               | Return (w1, Inr c) \<Rightarrow>
                   (case go_Conn_addr E w1 (Some c) a of
                      Panic \<Rightarrow> Panic
                    | Return (w2, Some err) \<Rightarrow>
                        (case go_Close E w2 (Some c) of
                           Panic \<Rightarrow> Panic
                         | Return (w3, _) \<Rightarrow> Return (w3, Inl err))
                    | Return (w2, None) \<Rightarrow>
                        (case BackupRestoreRegs opt of
                           None \<Rightarrow> Return (w2, Inr c)
                         | Some regs \<Rightarrow>
                             go_backup_loop E w2 (c\<lparr>backupaddr := a\<rparr>) a regs))))))"

definition go_Open ::
  "'s env \<Rightarrow> 's world \<Rightarrow> int \<Rightarrow> 8 word \<Rightarrow> ('s world \<times> (error + Conn)) go" where
  "go_Open E w bus a =
     go_OpenWithOptions E w bus a (Some \<lparr>Force = False, BackupRestoreRegs = Some []\<rparr>)"

definition go_Write ::
  "'s rawio \<Rightarrow> 's world \<Rightarrow> Conn option \<Rightarrow> 8 word list \<Rightarrow> ('s world \<times> int \<times> error option) go" where
  "go_Write F w cp buf =
     (case deref cp of
        Panic \<Rightarrow> Panic
      | Return c \<Rightarrow> Return (file_Write F w (conn_f c) buf))"

definition go_WriteByte ::
  "'s rawio \<Rightarrow> 's world \<Rightarrow> Conn option \<Rightarrow> 8 word \<Rightarrow> ('s world \<times> int \<times> error option) go" where
  "go_WriteByte F w cp b =
     (case go_store (replicate 1 0) 0 b of
        Panic \<Rightarrow> Panic
      | Return buf \<Rightarrow>
          (case deref cp of
             Panic \<Rightarrow> Panic
           | Return c \<Rightarrow>
               (case go_reslice buf 0 (length buf) of
                  Panic \<Rightarrow> Panic
                | Return s \<Rightarrow> Return (file_Write F w (conn_f c) s))))"

definition go_Read ::
  "'s rawio \<Rightarrow> 's world \<Rightarrow> Conn option \<Rightarrow> 8 word list
     \<Rightarrow> ('s world \<times> int \<times> error option \<times> 8 word list) go" where
  "go_Read F w cp p =
     (case deref cp of
        Panic \<Rightarrow> Panic
      | Return c \<Rightarrow> Return (file_Read F w (conn_f c) p))"

subsection \<open>Observing a run\<close>

text \<open>
  The calls of an address selection, of a complete \<open>ReadReg\<close> and of a complete
  \<open>WriteReg\<close> on connection \<open>c\<close>, as they appear in the trace.
\<close>

definition sel_ev :: "Conn \<Rightarrow> 8 word \<Rightarrow> event" where
  "sel_ev c a =
     EvIoctl (conn_f c) (if force c then i2cSlaveForce else i2cSlave) (ArgInt (unat a))"

definition ReadReg_evs :: "Conn \<Rightarrow> 8 word \<Rightarrow> 8 word \<Rightarrow> event list" where
  "ReadReg_evs c a reg =
     [sel_ev c a,
      EvIoctl (conn_f c) i2cSMBus
        (ArgCmd \<lparr>rw = i2cSMBusRead, cmd = reg, len = i2cSMBusByteData, ptr = [0]\<rparr>)]"

definition WriteReg_evs :: "Conn \<Rightarrow> 8 word \<Rightarrow> 8 word \<Rightarrow> 8 word \<Rightarrow> event list" where
  "WriteReg_evs c a reg v =
     [sel_ev c a,
      EvIoctl (conn_f c) i2cSMBus
        (ArgCmd \<lparr>rw = i2cSMBusWrite, cmd = reg, len = i2cSMBusByteData, ptr = [v]\<rparr>)]"

text \<open>
  The restore writes of \<open>Close\<close> alone, without the closing of the handle: the
  world after the last write attempted, and the error of the write that stopped the
  loop, if any. \<open>Close_loop_restore\<close> below ties it to \<open>Close_loop\<close>.
\<close>

fun restore ::
  "'s env \<Rightarrow> 's world \<Rightarrow> Conn \<Rightarrow> (8 word \<times> 8 word) list \<Rightarrow> 's world \<times> error option" where
  "restore E w c [] = (w, None)"
| "restore E w c ((k, v) # kvs) =
     (case WriteReg E w c (backupaddr c) k v of
        (w1, Some err) \<Rightarrow> (w1, Some err)
      | (w1, None) \<Rightarrow> restore E w1 c kvs)"

text \<open>
  A bus that echoes writes: every address selection and every transfer succeeds, a
  write transfer stores the bytes it is handed under its register, and a read transfer
  returns the bytes last stored under its register. \<open>stored\<close> reads the register
  file out of the kernel state.
\<close>

definition echoes :: "'s env \<Rightarrow> ('s \<Rightarrow> 8 word \<Rightarrow> 8 word list) \<Rightarrow> bool" where
  "echoes E stored \<longleftrightarrow>
     (\<forall>s fd code n. case sys_ioctl E s fd code (ArgInt n) of
         ((e, mem), s') \<Rightarrow> e = 0 \<and> stored s' = stored s) \<and>
     (\<forall>s fd k. case sys_ioctl E s fd i2cSMBus (ArgCmd k) of
         ((e, mem), s') \<Rightarrow>
           e = 0 \<and>
           (if rw k = i2cSMBusRead then mem = stored s (cmd k)
            else stored s' (cmd k) = ptr k))"

subsection \<open>A mock adapter\<close>

text \<open>
  A concrete environment to run the model on. The kernel state is the register file
  (register to the bytes last written). Opening bus \<open>b\<close> gives handle 3 (a negative
  bus number does not exist); selecting an address for which \<open>busy\<close> holds fails with
  EBUSY (16); a read of a register in \<open>bad_rd\<close> and a write of a register in
  \<open>bad_wr\<close> fail with EIO (5); \<open>range\<close> visits a map in reverse insertion order.
\<close>

definition mock_ioctl ::
  "(nat \<Rightarrow> bool) \<Rightarrow> (8 word \<Rightarrow> bool) \<Rightarrow> (8 word \<Rightarrow> bool) \<Rightarrow> (8 word \<Rightarrow> 8 word list)
     \<Rightarrow> nat \<Rightarrow> nat \<Rightarrow> ioctl_arg \<Rightarrow> (nat \<times> 8 word list) \<times> (8 word \<Rightarrow> 8 word list)" where
  "mock_ioctl busy bad_rd bad_wr s fd code arg =
     (case arg of
        ArgInt n \<Rightarrow> (if busy n then ((16, []), s) else ((0, []), s))
      | ArgCmd k \<Rightarrow>
          (if rw k = i2cSMBusRead
           then (if bad_rd (cmd k) then ((5, []), s) else ((0, s (cmd k)), s))
           else (if bad_wr (cmd k) then ((5, []), s) else ((0, []), s(cmd k := ptr k)))))"

definition mock_bus ::
  "(nat \<Rightarrow> bool) \<Rightarrow> (8 word \<Rightarrow> bool) \<Rightarrow> (8 word \<Rightarrow> bool) \<Rightarrow> (8 word \<Rightarrow> 8 word list) env" where
  "mock_bus busy bad_rd bad_wr =
     \<lparr>sys_open = (\<lambda>s bus. if bus < 0 then (Inl (OsError 2), s) else (Inr 3, s)),
      sys_ioctl = mock_ioctl busy bad_rd bad_wr,
      sys_close = (\<lambda>s fd. (None, s)),
      map_range = rev\<rparr>"

definition echo_bus :: "(8 word \<Rightarrow> 8 word list) env" where
  "echo_bus = mock_bus (\<lambda>_. False) (\<lambda>_. False) (\<lambda>_. False)"

definition w0 :: "(8 word \<Rightarrow> 8 word list) world" where
  "w0 = \<lparr>kstate = (\<lambda>_. []), trace = []\<rparr>"

definition c3 :: Conn where
  "c3 = \<lparr>conn_f = 3, force = False, backupRegs = [], backupaddr = 0\<rparr>"

definition c3f :: Conn where
  "c3f = \<lparr>conn_f = 3, force = True, backupRegs = [], backupaddr = 0\<rparr>"

text \<open>Address 0x77 is claimed by a kernel driver.\<close>

definition busy_bus :: "(8 word \<Rightarrow> 8 word list) env" where
  "busy_bus = mock_bus (\<lambda>n. n = 0x77) (\<lambda>_. False) (\<lambda>_. False)"

text \<open>Register 0xEE cannot be read, register 0xDD cannot be written.\<close>

definition faulty_bus :: "(8 word \<Rightarrow> 8 word list) env" where
  "faulty_bus = mock_bus (\<lambda>_. False) (\<lambda>r. r = 0xEE) (\<lambda>r. r = 0xDD)"

text \<open>A device whose register 0x20 holds a block with a length byte of 9.\<close>

definition w_dev :: "(8 word \<Rightarrow> 8 word list) world" where
  "w_dev = \<lparr>kstate = (\<lambda>_. [])(0x20 := [9, 1, 2, 3]), trace = []\<rparr>"

text \<open>A connection that recorded three registers of the device at 0x50.\<close>

definition c_bk :: Conn where
  "c_bk = \<lparr>conn_f = 3, force = False,
           backupRegs = [(0x01, 0xA1), (0xDD, 0xA2), (0x03, 0xA3)], backupaddr = 0x50\<rparr>"

text \<open>A device whose registers 0x01 and 0x02 hold 0xA1 and 0xA2.\<close>

definition w_regs :: "(8 word \<Rightarrow> 8 word list) world" where
  "w_regs = \<lparr>kstate = (\<lambda>_. [])(0x01 := [0xA1], 0x02 := [0xA2]), trace = []\<rparr>"

text \<open>A file that accepts every write in full and fails every read with EIO.\<close>

definition mock_io :: "(8 word \<Rightarrow> 8 word list) rawio" where
  "mock_io =
     \<lparr>sys_write = (\<lambda>s fd buf. ((int (length buf), None), s)),
      sys_read = (\<lambda>s fd p. ((0, Some (OsError 5), []), s))\<rparr>"

section \<open>Basic facts\<close>

lemmas mock_defs = echo_bus_def busy_bus_def faulty_bus_def mock_bus_def mock_ioctl_def
  w0_def w_dev_def w_regs_def c3_def c3f_def c_bk_def

lemmas const_defs = i2cSlave_def i2cSlaveForce_def i2cSMBus_def i2cSMBusWrite_def
  i2cSMBusRead_def i2cSMBusByteData_def i2cSMBusWordData_def i2cSMBusI2CBlockData_def
  i2cSMBusBlockMax_def

lemma ioctl_trace:
  "ioctl E w fd code arg = (w1, r) \<Longrightarrow> trace w1 = trace w @ [EvIoctl fd code arg]"
  by (auto simp: ioctl_def split: prod.splits)

lemma length_poke: "length (poke old new) = length old"
  by (simp add: poke_def)

lemma go_copy_same_length: "length src = length dst \<Longrightarrow> go_copy dst src = src"
  by (simp add: go_copy_def)

lemma ioctl_eq:
  "ioctl E w fd code arg =
     (\<lparr>kstate = snd (sys_ioctl E (kstate w) fd code arg),
       trace = trace w @ [EvIoctl fd code arg]\<rparr>,
      (if fst (fst (sys_ioctl E (kstate w) fd code arg)) \<noteq> 0
       then Some (Errno (fst (fst (sys_ioctl E (kstate w) fd code arg)))) else None),
      snd (fst (sys_ioctl E (kstate w) fd code arg)))"
  by (simp add: ioctl_def case_prod_beta)

lemma Conn_addr_eq:
  "Conn_addr E w c a =
     (let code = (if force c then i2cSlaveForce else i2cSlave);
          r = sys_ioctl E (kstate w) (conn_f c) code (ArgInt (unat a))
      in (\<lparr>kstate = snd r, trace = trace w @ [EvIoctl (conn_f c) code (ArgInt (unat a))]\<rparr>,
          (if fst (fst r) \<noteq> 0 then Some (Errno (fst (fst r))) else None)))"
  by (simp add: Conn_addr_def ioctl_eq Let_def)

lemma write_scratch:
  "take 1 ((replicate (1 + length buf) 0)[0 := of_nat (length buf)])
     @ go_copy (drop 1 ((replicate (1 + length buf) (0::8 word))[0 := of_nat (length buf)])) buf
   = of_nat (length buf) # buf"
  by (simp add: go_copy_def)

lemma read_scratch:
  "(replicate (length buf + 1) (0::8 word))[0 := of_nat (length buf)]
   = of_nat (length buf) # replicate (length buf) 0"
  by simp

lemma read_copy_back:
  "go_copy (go_slice buf 0 (length buf))
           (go_slice (poke (of_nat (length buf) # replicate (length buf) 0) m) 1 (length buf + 1))
   = take (length buf) (drop 1 (poke (of_nat (length buf) # replicate (length buf) 0) m))"
proof -
  have "length (poke (of_nat (length buf) # replicate (length buf) 0) m) = length buf + 1"
    by (simp only: length_poke) simp
  then have "length (go_slice (poke (of_nat (length buf) # replicate (length buf) 0) m) 1 (length buf + 1))
             = length (go_slice buf 0 (length buf))"
    by (simp add: go_slice_def)
  then show ?thesis
    by (simp only: go_copy_same_length) (simp add: go_slice_def)
qed

lemma WriteBlockData_eq:
  assumes "length buf \<le> 32"
  shows "WriteBlockData E w c a reg buf =
     (case Conn_addr E w c a of
        (w1, Some err) \<Rightarrow> (w1, Some err)
      | (w1, None) \<Rightarrow>
          (case ioctl E w1 (conn_f c) i2cSMBus
                  (ArgCmd \<lparr>rw = i2cSMBusWrite, cmd = reg, len = i2cSMBusI2CBlockData,
                           ptr = of_nat (length buf) # buf\<rparr>) of
             (w2, err, _) \<Rightarrow> (w2, err)))"
proof -
  have "\<not> length buf > unat i2cSMBusBlockMax"
    using assms by (simp add: i2cSMBusBlockMax_def)
  then show ?thesis
    unfolding WriteBlockData_def Let_def write_scratch by (simp only: if_False)
qed

lemma ReadBlockData_eq:
  assumes "length buf \<le> 32"
  shows "ReadBlockData E w c a reg buf =
     (case Conn_addr E w c a of
        (w1, Some err) \<Rightarrow> (w1, Some err, buf)
      | (w1, None) \<Rightarrow>
          (case ioctl E w1 (conn_f c) i2cSMBus
                  (ArgCmd \<lparr>rw = i2cSMBusRead, cmd = reg, len = i2cSMBusI2CBlockData,
                           ptr = of_nat (length buf) # replicate (length buf) 0\<rparr>) of
             (w2, Some err, mem) \<Rightarrow> (w2, Some err, buf)
           | (w2, None, mem) \<Rightarrow>
               (w2, None,
                take (length buf)
                  (drop 1 (poke (of_nat (length buf) # replicate (length buf) 0) mem)))))"
proof -
  have "\<not> length buf > unat i2cSMBusBlockMax"
    using assms by (simp add: i2cSMBusBlockMax_def)
  then show ?thesis
    unfolding ReadBlockData_def Let_def read_scratch read_copy_back by (simp only: if_False)
qed

lemma echoes_select:
  assumes "echoes E stored"
  shows "fst (fst (sys_ioctl E s fd code (ArgInt n))) = 0"
    and "stored (snd (sys_ioctl E s fd code (ArgInt n))) = stored s"
  using assms unfolding echoes_def by (auto simp: case_prod_beta)

lemma echoes_xfer:
  "echoes E stored \<Longrightarrow>
     (case sys_ioctl E s fd i2cSMBus (ArgCmd k) of
        ((e, mem), s') \<Rightarrow>
          e = 0 \<and>
          (if rw k = i2cSMBusRead then mem = stored s (cmd k)
           else stored s' (cmd k) = ptr k))"
  by (simp add: echoes_def)

lemma echoes_write:
  assumes "echoes E stored"
  shows "fst (fst (sys_ioctl E s fd i2cSMBus
                     (ArgCmd \<lparr>rw = i2cSMBusWrite, cmd = reg, len = n, ptr = d\<rparr>))) = 0"
    and "stored (snd (sys_ioctl E s fd i2cSMBus
                     (ArgCmd \<lparr>rw = i2cSMBusWrite, cmd = reg, len = n, ptr = d\<rparr>))) reg = d"
  using echoes_xfer [OF assms, where s = s and fd = fd
      and k = "\<lparr>rw = i2cSMBusWrite, cmd = reg, len = n, ptr = d\<rparr>"]
  by (simp_all add: case_prod_beta i2cSMBusWrite_def i2cSMBusRead_def)

lemma echoes_read:
  assumes "echoes E stored"
  shows "fst (fst (sys_ioctl E s fd i2cSMBus
                     (ArgCmd \<lparr>rw = i2cSMBusRead, cmd = reg, len = n, ptr = d\<rparr>))) = 0"
    and "snd (fst (sys_ioctl E s fd i2cSMBus
                     (ArgCmd \<lparr>rw = i2cSMBusRead, cmd = reg, len = n, ptr = d\<rparr>))) = stored s reg"
  using echoes_xfer [OF assms, where s = s and fd = fd
      and k = "\<lparr>rw = i2cSMBusRead, cmd = reg, len = n, ptr = d\<rparr>"]
  by (simp_all add: case_prod_beta)

lemma poke_full: "length new = length old \<Longrightarrow> poke old new = new"
  by (simp add: poke_def)

lemma file_Close_eq:
  "file_Close E w fd =
     (\<lparr>kstate = snd (sys_close E (kstate w) fd), trace = trace w @ [EvClose fd]\<rparr>,
      fst (sys_close E (kstate w) fd))"
  by (simp add: file_Close_def case_prod_beta)

lemma os_OpenFile_eq:
  "os_OpenFile E w bus =
     (\<lparr>kstate = snd (sys_open E (kstate w) bus), trace = trace w @ [EvOpen bus]\<rparr>,
      fst (sys_open E (kstate w) bus))"
  by (simp add: os_OpenFile_def case_prod_beta)

lemma Conn_addr_trace:
  "Conn_addr E w c a = (w1, r) \<Longrightarrow> trace w1 = trace w @ [sel_ev c a]"
  by (auto simp: Conn_addr_eq sel_ev_def Let_def)

lemma ReadReg_ok_trace:
  "ReadReg E w c a reg = (w1, v, None) \<Longrightarrow> trace w1 = trace w @ ReadReg_evs c a reg"
  by (auto simp: ReadReg_def ReadReg_evs_def dest!: Conn_addr_trace ioctl_trace
      split: prod.splits option.splits)

lemma WriteReg_ok_trace:
  "WriteReg E w c a reg v = (w1, None) \<Longrightarrow> trace w1 = trace w @ WriteReg_evs c a reg v"
  by (auto simp: WriteReg_def WriteReg_evs_def dest!: Conn_addr_trace ioctl_trace
      split: prod.splits option.splits)

lemma WriteReg_fail_trace:
  "WriteReg E w c a reg v = (w1, Some err) \<Longrightarrow>
     trace w1 = trace w @ [sel_ev c a] \<or> trace w1 = trace w @ WriteReg_evs c a reg v"
  by (auto simp: WriteReg_def WriteReg_evs_def dest!: Conn_addr_trace ioctl_trace
      split: prod.splits option.splits)

lemma Close_loop_restore:
  "Close_loop E w c kvs = file_Close E (fst (restore E w c kvs)) (conn_f c)"
  by (induction kvs arbitrary: w) (auto split: prod.splits option.splits)

lemma restore_ok_trace:
  "restore E w c kvs = (w1, None) \<Longrightarrow>
     trace w1 = trace w @ concat (map (\<lambda>(k, v). WriteReg_evs c (backupaddr c) k v) kvs)"
proof (induction kvs arbitrary: w)
  case Nil
  then show ?case by simp
next
  case (Cons kv kvs)
  obtain k v where kv: "kv = (k, v)" by (cases kv)
  obtain w2 r where wr: "WriteReg E w c (backupaddr c) k v = (w2, r)"
    by (cases "WriteReg E w c (backupaddr c) k v")
  with Cons.prems kv have r: "r = None" and rest: "restore E w2 c kvs = (w1, None)"
    by (auto split: option.splits)
  from wr r have "trace w2 = trace w @ WriteReg_evs c (backupaddr c) k v"
    by (simp add: WriteReg_ok_trace)
  with Cons.IH [OF rest] kv show ?case by simp
qed

lemma restore_append:
  "restore E w c (pre @ post) =
     (case restore E w c pre of
        (w1, Some err) \<Rightarrow> (w1, Some err)
      | (w1, None) \<Rightarrow> restore E w1 c post)"
  by (induction pre arbitrary: w) (auto split: prod.splits option.splits)

lemma restore_stops:
  assumes "restore E w c pre = (w2, None)"
    and "WriteReg E w2 c (backupaddr c) k v = (w3, Some err)"
  shows "restore E w c (pre @ (k, v) # post) = (w3, Some err)"
  using assms by (simp add: restore_append)

lemma Close_trace:
  "trace (fst (Close E w c))
     = trace (fst (restore E w c (map_range E (backupRegs c)))) @ [EvClose (conn_f c)]"
  by (simp add: Close_def Close_loop_restore file_Close_eq)

lemma Close_last: "last (trace (fst (Close E w c))) = EvClose (conn_f c)"
  by (simp add: Close_trace)

lemma backup_loop_append:
  "backup_loop E w c a (pre @ post) =
     (case backup_loop E w c a pre of
        (w1, Inl err) \<Rightarrow> (w1, Inl err)
      | (w1, Inr c1) \<Rightarrow> backup_loop E w1 c1 a post)"
proof (induction pre arbitrary: w c)
  case Nil
  show ?case by simp
next
  case (Cons i rest)
  obtain w1 v r where rd: "ReadReg E w c a i = (w1, v, r)"
    by (cases "ReadReg E w c a i")
  show ?case
  proof (cases r)
    case None
    with rd Cons.IH show ?thesis by simp
  next
    case (Some e)
    with rd show ?thesis by simp
  qed
qed

lemma backup_loop_ok:
  "backup_loop E w c a regs = (w', Inr c') \<Longrightarrow>
     trace w' = trace w @ concat (map (ReadReg_evs c a) regs)
     \<and> conn_f c' = conn_f c \<and> force c' = force c \<and> backupaddr c' = backupaddr c
     \<and> fst ` set (backupRegs c') = fst ` set (backupRegs c) \<union> set regs"
proof (induction regs arbitrary: w c)
  case Nil
  then show ?case by simp
next
  case (Cons i rest)
  obtain w1 v r where rd: "ReadReg E w c a i = (w1, v, r)"
    by (cases "ReadReg E w c a i")
  define c1 where "c1 = c\<lparr>backupRegs := AList.update i v (backupRegs c)\<rparr>"
  have r: "r = None"
  proof (cases r)
    case None
    then show ?thesis .
  next
    case (Some e)
    with Cons.prems rd show ?thesis by simp
  qed
  with Cons.prems rd have rest: "backup_loop E w1 c1 a rest = (w', Inr c')"
    by (simp add: c1_def)
  from rd r have t1: "trace w1 = trace w @ ReadReg_evs c a i"
    by (simp add: ReadReg_ok_trace)
  have c1: "conn_f c1 = conn_f c" "force c1 = force c" "backupaddr c1 = backupaddr c"
    by (simp_all add: c1_def)
  have evs: "map (ReadReg_evs c1 a) rest = map (ReadReg_evs c a) rest"
    by (simp add: ReadReg_evs_def sel_ev_def c1_def)
  have keys: "fst ` set (backupRegs c1) = insert i (fst ` set (backupRegs c))"
    by (simp add: c1_def dom_update)
  from Cons.IH [OF rest] have ih:
    "trace w' = trace w1 @ concat (map (ReadReg_evs c1 a) rest)"
    "conn_f c' = conn_f c1" "force c' = force c1" "backupaddr c' = backupaddr c1"
    "fst ` set (backupRegs c') = fst ` set (backupRegs c1) \<union> set rest"
    by blast+
  have "trace w' = trace w @ concat (map (ReadReg_evs c a) (i # rest))"
    by (simp only: ih(1) t1 evs) simp
  moreover have "fst ` set (backupRegs c') = fst ` set (backupRegs c) \<union> set (i # rest)"
    by (simp only: ih(5) keys) auto
  ultimately show ?case
    using ih(2-4) c1 by simp
qed

lemma backup_loop_fail:
  "backup_loop E w c a regs = (w', Inl err) \<Longrightarrow> last (trace w') = EvClose (conn_f c)"
proof (induction regs arbitrary: w c)
  case Nil
  then show ?case by simp
next
  case (Cons i rest)
  obtain w1 v r where rd: "ReadReg E w c a i = (w1, v, r)"
    by (cases "ReadReg E w c a i")
  show ?case
  proof (cases r)
    case None
    with Cons.prems rd
    have "backup_loop E w1 (c\<lparr>backupRegs := AList.update i v (backupRegs c)\<rparr>) a rest = (w', Inl err)"
      by simp
    from Cons.IH [OF this] show ?thesis by simp
  next
    case (Some e)
    with Cons.prems rd have "w' = fst (Close E w1 c)" by simp
    then show ?thesis by (simp add: Close_last)
  qed
qed

lemma backup_loop_stops:
  assumes "backup_loop E w c a pre = (w1, Inr c1)"
    and "ReadReg E w1 c1 a i = (w2, v, Some err)"
  shows "backup_loop E w c a (pre @ i # post) = (fst (Close E w2 c1), Inl err)"
  using assms by (simp add: backup_loop_append)

lemma OpenWithOptions_Some:
  "OpenWithOptions E w bus a (Some opt) =
     (case os_OpenFile E w bus of
        (w1, Inl err) \<Rightarrow> (w1, Inl err)
      | (w1, Inr fd) \<Rightarrow>
          (case Conn_addr E w1 \<lparr>conn_f = fd, force = Force opt, backupRegs = [], backupaddr = 0\<rparr> a of
             (w2, Some err) \<Rightarrow>
               (fst (Close E w2 \<lparr>conn_f = fd, force = Force opt, backupRegs = [], backupaddr = 0\<rparr>),
                Inl err)
           | (w2, None) \<Rightarrow>
               (case BackupRestoreRegs opt of
                  None \<Rightarrow>
                    (w2, Inr \<lparr>conn_f = fd, force = Force opt, backupRegs = [], backupaddr = 0\<rparr>)
                | Some regs \<Rightarrow>
                    backup_loop E w2
                      \<lparr>conn_f = fd, force = Force opt, backupRegs = [], backupaddr = a\<rparr> a regs)))"
  by (simp add: OpenWithOptions_def OpenFileWithOptions_def Let_def case_prod_beta
      split: sum.split option.split)

lemma WriteReg_trace_sel:
  "\<exists>evs. trace (fst (WriteReg E w c a k v)) = trace w @ sel_ev c a # evs"
proof -
  obtain w1 r where wr: "WriteReg E w c a k v = (w1, r)"
    by (cases "WriteReg E w c a k v")
  show ?thesis
  proof (cases r)
    case None
    with wr have "trace w1 = trace w @ WriteReg_evs c a k v"
      by (simp add: WriteReg_ok_trace)
    with wr show ?thesis by (simp add: WriteReg_evs_def)
  next
    case (Some e)
    with wr have "trace w1 = trace w @ [sel_ev c a] \<or> trace w1 = trace w @ WriteReg_evs c a k v"
      by (simp add: WriteReg_fail_trace)
    with wr show ?thesis by (auto simp: WriteReg_evs_def)
  qed
qed

lemma restore_extends: "\<exists>evs. trace (fst (restore E w c kvs)) = trace w @ evs"
proof (induction kvs arbitrary: w)
  case Nil
  show ?case by simp
next
  case (Cons kv kvs)
  obtain k v where kv: "kv = (k, v)" by (cases kv)
  obtain w1 r where wr: "WriteReg E w c (backupaddr c) k v = (w1, r)"
    by (cases "WriteReg E w c (backupaddr c) k v")
  from WriteReg_trace_sel [of E w c "backupaddr c" k v] wr
  obtain e1 where e1: "trace w1 = trace w @ e1" by auto
  show ?case
  proof (cases r)
    case None
    from Cons.IH [of w1] obtain e2 where "trace (fst (restore E w1 c kvs)) = trace w1 @ e2" ..
    with kv wr None e1 show ?thesis by simp
  next
    case (Some e)
    with kv wr e1 show ?thesis by simp
  qed
qed

lemma restore_first:
  assumes "kvs \<noteq> []"
  shows "\<exists>evs. trace (fst (restore E w c kvs)) = trace w @ sel_ev c (backupaddr c) # evs"
proof -
  from assms obtain k v rest where kvs: "kvs = (k, v) # rest"
    by (cases kvs) auto
  obtain w1 r where wr: "WriteReg E w c (backupaddr c) k v = (w1, r)"
    by (cases "WriteReg E w c (backupaddr c) k v")
  from WriteReg_trace_sel [of E w c "backupaddr c" k v] wr
  obtain e1 where e1: "trace w1 = trace w @ sel_ev c (backupaddr c) # e1" by auto
  show ?thesis
  proof (cases r)
    case None
    from restore_extends [of E w1 c rest]
    obtain e2 where "trace (fst (restore E w1 c rest)) = trace w1 @ e2" ..
    with kvs wr None e1 show ?thesis by simp
  next
    case (Some e)
    with kvs wr e1 show ?thesis by simp
  qed
qed

lemma OpenWithOptions_loop:
  assumes "OpenWithOptions E w bus a (Some opt) = (w1, Inr c1)"
    and "BackupRestoreRegs opt = Some rs"
  shows "\<exists>fd wa. \<forall>opt' rs'. Force opt' = Force opt \<longrightarrow> BackupRestoreRegs opt' = Some rs' \<longrightarrow>
           OpenWithOptions E w bus a (Some opt')
             = backup_loop E wa \<lparr>conn_f = fd, force = Force opt, backupRegs = [], backupaddr = a\<rparr>
                 a rs'"
proof -
  obtain wo ro where op: "os_OpenFile E w bus = (wo, ro)"
    by (cases "os_OpenFile E w bus")
  show ?thesis
  proof (cases ro)
    case (Inl e)
    with op assms show ?thesis by (simp add: OpenWithOptions_Some)
  next
    case (Inr fd)
    obtain wa e where sel:
      "Conn_addr E wo \<lparr>conn_f = fd, force = Force opt, backupRegs = [], backupaddr = 0\<rparr> a = (wa, e)"
      by (cases "Conn_addr E wo \<lparr>conn_f = fd, force = Force opt, backupRegs = [], backupaddr = 0\<rparr> a")
    show ?thesis
    proof (cases e)
      case (Some err)
      with op Inr sel assms show ?thesis by (simp add: OpenWithOptions_Some)
    next
      case None
      have "OpenWithOptions E w bus a (Some opt')
             = backup_loop E wa \<lparr>conn_f = fd, force = Force opt, backupRegs = [], backupaddr = a\<rparr>
                 a rs'"
        if "Force opt' = Force opt" and "BackupRestoreRegs opt' = Some rs'" for opt' rs'
        using op Inr sel None that by (simp add: OpenWithOptions_Some)
      then show ?thesis by blast
    qed
  qed
qed

text \<open>
  The legacy implementation against the options-based one opened with \<open>Open\<close>
  (force flag off, empty backup map): the register transactions and \<open>Close\<close> agree
  call for call, and so does \<open>Open\<close> as long as the address selection succeeds or
  the bus cannot be opened. \<open>legacy_Open_select_failure\<close> is the path where they part.
\<close>

lemma legacy_register_ops_agree:
  assumes "force c = False" and "conn_f c = legacy_f lc"
  shows "legacy_ReadReg E w lc a reg = ReadReg E w c a reg"
    and "legacy_WriteReg E w lc a reg v = WriteReg E w c a reg v"
    and "legacy_ReadWord E w lc a reg = ReadWord E w c a reg"
    and "legacy_WriteWord E w lc a reg v16 = WriteWord E w c a reg v16"
  using assms
  by (simp_all add: legacy_ReadReg_def legacy_WriteReg_def legacy_ReadWord_def legacy_WriteWord_def
      legacy_addr_def ReadReg_def WriteReg_def ReadWord_def WriteWord_def Conn_addr_def ioctl_eq)

lemma legacy_Close_agrees:
  assumes "backupRegs c = []" and "map_range E [] = []" and "conn_f c = legacy_f lc"
  shows "legacy_Close E w lc = Close E w c"
  using assms by (simp add: legacy_Close_def Close_def)

lemma legacy_Open_agrees_unless_select_fails:
  assumes "map_range E [] = []"
    and "\<forall>fd s. sys_open E (kstate w) bus = (Inr fd, s) \<longrightarrow>
           fst (fst (sys_ioctl E s fd i2cSlave (ArgInt (unat a)))) = 0"
  shows "fst (legacy_Open E w bus a) = fst (Open E w bus a)
       \<and> map_sum id legacy_f (snd (legacy_Open E w bus a)) = map_sum id conn_f (snd (Open E w bus a))"
proof (cases "sys_open E (kstate w) bus")
  case (Pair r s)
  show ?thesis
  proof (cases r)
    case (Inl e)
    with Pair show ?thesis
      by (simp add: legacy_Open_def Open_def OpenWithOptions_Some os_OpenFile_def)
  next
    case (Inr fd)
    with Pair assms(2) have "fst (fst (sys_ioctl E s fd i2cSlave (ArgInt (unat a)))) = 0"
      by simp
    with Pair Inr show ?thesis
      by (simp add: legacy_Open_def Open_def OpenWithOptions_Some os_OpenFile_def Conn_addr_def
          ioctl_eq)
  qed
qed

lemma legacy_Open_select_failure:
  assumes "sys_open E (kstate w) bus = (Inr fd, s)"
    and "fst (fst (sys_ioctl E s fd i2cSlave (ArgInt (unat a)))) = e" and "e \<noteq> 0"
    and "map_range E [] = []"
  shows "snd (legacy_Open E w bus a) = Inl (Errno e)"
    and "trace (fst (legacy_Open E w bus a))
           = trace w @ [EvOpen bus, EvIoctl fd i2cSlave (ArgInt (unat a))]"
    and "snd (Open E w bus a) = Inl (Errno e)"
    and "trace (fst (Open E w bus a))
           = trace w @ [EvOpen bus, EvIoctl fd i2cSlave (ArgInt (unat a)), EvClose fd]"
  using assms
  by (simp_all add: legacy_Open_def Open_def OpenWithOptions_Some os_OpenFile_def Conn_addr_def
      ioctl_eq Close_def file_Close_eq)

text \<open>
  The operations with their panics explicit, against the operations as embedded above:
  on a connection that is not nil, and for the open functions on any options pointer,
  no step panics and the result is the embedded operation's.
\<close>

lemma go_Conn_addr_Some: "go_Conn_addr E w (Some c) a = Return (Conn_addr E w c a)"
  by (simp add: go_Conn_addr_def Conn_addr_def deref_def case_prod_beta)

lemma go_ReadReg_Some: "go_ReadReg E w (Some c) a reg = Return (ReadReg E w c a reg)"
  by (simp add: go_ReadReg_def ReadReg_def go_Conn_addr_Some deref_def case_prod_beta
      split: option.split)

lemma go_WriteReg_Some: "go_WriteReg E w (Some c) a reg v = Return (WriteReg E w c a reg v)"
  by (simp add: go_WriteReg_def WriteReg_def go_Conn_addr_Some deref_def case_prod_beta
      split: option.split)

lemma go_ReadWord_Some: "go_ReadWord E w (Some c) a reg = Return (ReadWord E w c a reg)"
  by (simp add: go_ReadWord_def ReadWord_def go_Conn_addr_Some deref_def case_prod_beta
      split: option.split)

lemma go_WriteWord_Some: "go_WriteWord E w (Some c) a reg v = Return (WriteWord E w c a reg v)"
  by (simp add: go_WriteWord_def WriteWord_def go_Conn_addr_Some deref_def case_prod_beta
      split: option.split)

lemma go_ReadBlockData_Some:
  "go_ReadBlockData E w (Some c) a reg buf = Return (ReadBlockData E w c a reg buf)"
proof (cases "length buf > unat i2cSMBusBlockMax")
  case True
  then show ?thesis by (simp add: go_ReadBlockData_def ReadBlockData_def)
next
  case False
  then have le: "length buf \<le> 32" by (simp add: i2cSMBusBlockMax_def)
  have mk: "go_make (length buf + 1) (unat (i2cSMBusBlockMax + 2))
              = Return (replicate (length buf + 1) 0)"
    using le by (simp add: go_make_def i2cSMBusBlockMax_def)
  have st: "go_store (replicate (length buf + 1) (0::8 word)) 0 x
              = Return ((replicate (length buf + 1) 0)[0 := x])" for x
    by (simp add: go_store_def)
  have ad: "go_addr_of ((replicate (length buf + 1) (0::8 word))[0 := x]) 0
              = Return ((replicate (length buf + 1) 0)[0 := x])" for x
    by (simp add: go_addr_of_def)
  have r1: "go_reslice buf 0 (length buf) = Return (go_slice buf 0 (length buf))"
    by (simp add: go_reslice_def)
  have r2: "go_reslice (poke ((replicate (length buf + 1) (0::8 word))[0 := x]) m) 1 (length buf + 1)
              = Return (go_slice (poke ((replicate (length buf + 1) 0)[0 := x]) m) 1 (length buf + 1))"
    for x m
    by (simp add: go_reslice_def length_poke)
  show ?thesis
    unfolding go_ReadBlockData_def ReadBlockData_def Let_def
    using False
    by (simp only: if_False go_Conn_addr_Some mk st ad r1 r2 deref_def go.case option.case)
      (simp add: case_prod_beta split: option.split)
qed

lemma go_WriteBlockData_Some:
  "go_WriteBlockData E w (Some c) a reg buf = Return (WriteBlockData E w c a reg buf)"
proof (cases "length buf > unat i2cSMBusBlockMax")
  case True
  then show ?thesis by (simp add: go_WriteBlockData_def WriteBlockData_def)
next
  case False
  then have le: "length buf \<le> 32" by (simp add: i2cSMBusBlockMax_def)
  have mk: "go_make (1 + length buf) (unat (i2cSMBusBlockMax + 2))
              = Return (replicate (1 + length buf) 0)"
    using le by (simp add: go_make_def i2cSMBusBlockMax_def)
  have st: "go_store (replicate (1 + length buf) (0::8 word)) 0 x
              = Return ((replicate (1 + length buf) 0)[0 := x])" for x
    by (simp add: go_store_def)
  have r1: "go_reslice ((replicate (1 + length buf) (0::8 word))[0 := x]) 1
                (length ((replicate (1 + length buf) (0::8 word))[0 := x]))
              = Return (drop 1 ((replicate (1 + length buf) 0)[0 := x]))" for x
    by (simp add: go_reslice_def go_slice_def)
  have ad: "go_addr_of (take 1 ((replicate (1 + length buf) (0::8 word))[0 := x]) @ ys) 0
              = Return (take 1 ((replicate (1 + length buf) 0)[0 := x]) @ ys)" for x ys
    by (simp add: go_addr_of_def)
  show ?thesis
    unfolding go_WriteBlockData_def WriteBlockData_def Let_def
    using False
    by (simp only: if_False go_Conn_addr_Some mk st ad r1 deref_def go.case option.case)
      (simp add: case_prod_beta split: option.split)
qed

lemma go_Close_loop_Some:
  "go_Close_loop E w (Some c) kvs = Return (Close_loop E w c kvs)"
proof (induction kvs arbitrary: w)
  case Nil
  show ?case by (simp add: deref_def)
next
  case (Cons kv kvs)
  obtain k v where kv: "kv = (k, v)" by (cases kv)
  obtain w1 r where wr: "WriteReg E w c (backupaddr c) k v = (w1, r)"
    by (cases "WriteReg E w c (backupaddr c) k v")
  show ?case
    using Cons.IH [of w1] by (cases r) (simp_all add: kv wr deref_def go_WriteReg_Some)
qed

lemma go_Close_Some: "go_Close E w (Some c) = Return (Close E w c)"
  by (simp add: go_Close_def Close_def deref_def go_Close_loop_Some)

lemma go_backup_loop_eq:
  "go_backup_loop E w c a regs = Return (backup_loop E w c a regs)"
proof (induction regs arbitrary: w c)
  case Nil
  show ?case by simp
next
  case (Cons i rest)
  obtain w1 v r where rd: "ReadReg E w c a i = (w1, v, r)"
    by (cases "ReadReg E w c a i")
  show ?case
    using Cons.IH [of w1 "c\<lparr>backupRegs := AList.update i v (backupRegs c)\<rparr>"]
    by (cases r) (simp_all add: rd go_ReadReg_Some go_Close_Some case_prod_beta)
qed

lemma go_OpenFileWithOptions_eq:
  "go_OpenFileWithOptions E w bus opts = Return (OpenFileWithOptions E w bus opts)"
  by (cases opts)
    (simp_all add: go_OpenFileWithOptions_def OpenFileWithOptions_def deref_def case_prod_beta
      split: sum.split)

lemma go_OpenWithOptions_eq:
  "go_OpenWithOptions E w bus a opts = Return (OpenWithOptions E w bus a opts)"
proof (cases opts)
  case None
  then show ?thesis by (simp add: go_OpenWithOptions_def OpenWithOptions_def)
next
  case (Some opt)
  let ?o = "\<lparr>Force = Force opt, BackupRestoreRegs = None\<rparr>"
  obtain w1 r where op: "OpenFileWithOptions E w bus (Some ?o) = (w1, r)"
    by (cases "OpenFileWithOptions E w bus (Some ?o)")
  show ?thesis
  proof (cases r)
    case (Inl e)
    with Some op show ?thesis
      by (simp add: go_OpenWithOptions_def OpenWithOptions_def deref_def
          go_OpenFileWithOptions_eq)
  next
    case (Inr c)
    obtain w2 e where sel: "Conn_addr E w1 c a = (w2, e)"
      by (cases "Conn_addr E w1 c a")
    show ?thesis
    proof (cases e)
      case None
      with Some op Inr sel show ?thesis
        by (simp add: go_OpenWithOptions_def OpenWithOptions_def deref_def
            go_OpenFileWithOptions_eq go_Conn_addr_Some go_backup_loop_eq split: option.split)
    next
      case (Some err)
      with \<open>opts = Some opt\<close> op Inr sel show ?thesis
        by (simp add: go_OpenWithOptions_def OpenWithOptions_def deref_def
            go_OpenFileWithOptions_eq go_Conn_addr_Some go_Close_Some case_prod_beta)
    qed
  qed
qed

section \<open>Block size limit\<close>

text \<open>
  Claim C1. For every buffer longer than 32 bytes, both \<open>ReadBlockData\<close> and
  \<open>WriteBlockData\<close> return \<open>errSMBusBlockDataMax\<close> and leave the world as it was:
  the trace is unchanged (no address-select ioctl, no transfer ioctl), the kernel state
  is unchanged, and the caller's buffer is unchanged.
\<close>

theorem block_data_size_limit:
  assumes "length buf > 32"
  shows "ReadBlockData E w c a reg buf = (w, Some errSMBusBlockDataMax, buf)
       \<and> WriteBlockData E w c a reg buf = (w, Some errSMBusBlockDataMax)"
  using assms by (simp add: ReadBlockData_def WriteBlockData_def i2cSMBusBlockMax_def)

theorem block_data_size_limit_witness:
  "length (replicate 33 (0::8 word)) > 32
   \<and> ReadBlockData echo_bus w0 c3 0x50 0x20 (replicate 33 0)
       = (w0, Some errSMBusBlockDataMax, replicate 33 0)
   \<and> WriteBlockData echo_bus w0 c3 0x50 0x20 (replicate 33 0)
       = (w0, Some errSMBusBlockDataMax)"
  using block_data_size_limit [where buf = "replicate 33 (0::8 word)" and E = echo_bus and w = w0
      and c = c3 and a = "0x50" and reg = "0x20"] by simp

section \<open>Register transactions: one address selection, then one transfer\<close>

text \<open>
  Claim C4. Every call of \<open>ReadReg\<close>, \<open>WriteReg\<close>, \<open>ReadWord\<close> or \<open>WriteWord\<close>
  first issues one address-select ioctl, with control code 0x0706 when the connection's
  force flag is set and 0x0703 otherwise, and the address as argument. If that ioctl
  fails (errno \<open>e1\<close> not 0) the call returns that errno as its error and issues nothing
  else; otherwise it issues exactly one more ioctl, the SMBus transfer with control code
  0x0720, on the descriptor of the operation (direction, register, size class 2 for a
  byte and 3 for a word, data).
\<close>

theorem reg_ops_ioctl_sequence:
  "let fd = conn_f c;
       code = (if force c then 0x0706 else 0x0703);
       sel = EvIoctl fd code (ArgInt (unat a));
       e1 = fst (fst (sys_ioctl E (kstate w) fd code (ArgInt (unat a))));
       xfer = (\<lambda>k. EvIoctl fd 0x0720 (ArgCmd k))
   in (e1 \<noteq> 0 \<longrightarrow>
         (\<exists>w1. trace w1 = trace w @ [sel]
            \<and> ReadReg E w c a reg = (w1, 0, Some (Errno e1))
            \<and> WriteReg E w c a reg v = (w1, Some (Errno e1))
            \<and> ReadWord E w c a reg = (w1, 0, Some (Errno e1))
            \<and> WriteWord E w c a reg v16 = (w1, Some (Errno e1))))
    \<and> (e1 = 0 \<longrightarrow>
         trace (fst (ReadReg E w c a reg))
           = trace w @ [sel, xfer \<lparr>rw = 1, cmd = reg, len = 2, ptr = [0]\<rparr>]
       \<and> trace (fst (WriteReg E w c a reg v))
           = trace w @ [sel, xfer \<lparr>rw = 0, cmd = reg, len = 2, ptr = [v]\<rparr>]
       \<and> trace (fst (ReadWord E w c a reg))
           = trace w @ [sel, xfer \<lparr>rw = 1, cmd = reg, len = 3, ptr = [0, 0]\<rparr>]
       \<and> trace (fst (WriteWord E w c a reg v16))
           = trace w @ [sel, xfer \<lparr>rw = 0, cmd = reg, len = 3,
                                   ptr = [ucast v16, ucast (drop_bit 8 v16)]\<rparr>])"
  by (auto simp: Let_def ReadReg_def WriteReg_def ReadWord_def WriteWord_def Conn_addr_def
      ioctl_def const_defs word_bytes_def split: prod.splits)

theorem reg_ops_ioctl_sequence_witness:
  "trace (fst (ReadReg echo_bus w0 c3 0x50 0x10))
     = [EvIoctl 3 0x0703 (ArgInt 0x50),
        EvIoctl 3 0x0720 (ArgCmd \<lparr>rw = 1, cmd = 0x10, len = 2, ptr = [0]\<rparr>)]
   \<and> trace (fst (WriteReg echo_bus w0 c3 0x50 0x10 0xAB))
     = [EvIoctl 3 0x0703 (ArgInt 0x50),
        EvIoctl 3 0x0720 (ArgCmd \<lparr>rw = 0, cmd = 0x10, len = 2, ptr = [0xAB]\<rparr>)]
   \<and> trace (fst (ReadWord echo_bus w0 c3 0x50 0x10))
     = [EvIoctl 3 0x0703 (ArgInt 0x50),
        EvIoctl 3 0x0720 (ArgCmd \<lparr>rw = 1, cmd = 0x10, len = 3, ptr = [0, 0]\<rparr>)]
   \<and> trace (fst (WriteWord echo_bus w0 c3 0x50 0x10 0xBEEF))
     = [EvIoctl 3 0x0703 (ArgInt 0x50),
        EvIoctl 3 0x0720 (ArgCmd \<lparr>rw = 0, cmd = 0x10, len = 3, ptr = [0xEF, 0xBE]\<rparr>)]
   \<and> trace (fst (ReadReg busy_bus w0 c3f 0x77 0x10)) = [EvIoctl 3 0x0706 (ArgInt 0x77)]
   \<and> snd (ReadReg busy_bus w0 c3f 0x77 0x10) = (0, Some (Errno 16))
   \<and> trace (fst (WriteReg busy_bus w0 c3f 0x77 0x10 0xAB)) = [EvIoctl 3 0x0706 (ArgInt 0x77)]
   \<and> snd (WriteReg busy_bus w0 c3f 0x77 0x10 0xAB) = Some (Errno 16)
   \<and> trace (fst (ReadWord busy_bus w0 c3f 0x77 0x10)) = [EvIoctl 3 0x0706 (ArgInt 0x77)]
   \<and> snd (ReadWord busy_bus w0 c3f 0x77 0x10) = (0, Some (Errno 16))
   \<and> trace (fst (WriteWord busy_bus w0 c3f 0x77 0x10 0xBEEF)) = [EvIoctl 3 0x0706 (ArgInt 0x77)]
   \<and> snd (WriteWord busy_bus w0 c3f 0x77 0x10 0xBEEF) = Some (Errno 16)"
  using reg_ops_ioctl_sequence [where E = echo_bus and w = w0 and c = c3 and a = "0x50"
          and reg = "0x10" and v = "0xAB" and ?v16.0 = "0xBEEF"]
        reg_ops_ioctl_sequence [where E = busy_bus and w = w0 and c = c3f and a = "0x77"
          and reg = "0x10" and v = "0xAB" and ?v16.0 = "0xBEEF"]
  by (auto simp: Let_def mock_defs)

section \<open>Block transactions: the scratch buffer\<close>

text \<open>
  Claim C2. For every buffer of at most 32 bytes: after the address selection
  (which, when it fails, ends the call with its error and nothing dispatched),
  \<open>WriteBlockData\<close> dispatches one transfer with direction write, size class 8
  (I2C block data) and a scratch buffer of \<open>len(buf)+1\<close> bytes whose byte 0 is
  \<open>len(buf)\<close> and whose remaining bytes are the payload; \<open>ReadBlockData\<close> dispatches
  one transfer with direction read, size class 8 and a scratch buffer of \<open>len(buf)+1\<close>
  bytes (byte 0 is \<open>len(buf)\<close>, the rest zero), and when the transfer succeeds it
  returns no error and the caller's buffer holds bytes 1 to \<open>len(buf)\<close> of the scratch
  buffer as the kernel left it (\<open>mem\<close> is what the kernel stored there), whatever byte 0
  is: the length the device reports is not looked at.
\<close>

theorem block_data_scratch_buffer:
  assumes "length buf \<le> 32"
  shows
  "let fd = conn_f c;
       code = (if force c then 0x0706 else 0x0703);
       sel = EvIoctl fd code (ArgInt (unat a));
       sel_result = sys_ioctl E (kstate w) fd code (ArgInt (unat a));
       e1 = fst (fst sel_result);
       wdata = of_nat (length buf) # buf;
       rdata = of_nat (length buf) # replicate (length buf) 0;
       wcmd = ArgCmd \<lparr>rw = 0, cmd = reg, len = 8, ptr = wdata\<rparr>;
       rcmd = ArgCmd \<lparr>rw = 1, cmd = reg, len = 8, ptr = rdata\<rparr>;
       e2 = fst (fst (sys_ioctl E (snd sel_result) fd 0x0720 rcmd));
       mem = snd (fst (sys_ioctl E (snd sel_result) fd 0x0720 rcmd))
   in length wdata = length buf + 1 \<and> unat (hd wdata) = length buf
    \<and> length rdata = length buf + 1 \<and> unat (hd rdata) = length buf
    \<and> (e1 \<noteq> 0 \<longrightarrow>
          trace (fst (WriteBlockData E w c a reg buf)) = trace w @ [sel]
        \<and> snd (WriteBlockData E w c a reg buf) = Some (Errno e1)
        \<and> trace (fst (ReadBlockData E w c a reg buf)) = trace w @ [sel]
        \<and> snd (ReadBlockData E w c a reg buf) = (Some (Errno e1), buf))
    \<and> (e1 = 0 \<longrightarrow>
          trace (fst (WriteBlockData E w c a reg buf)) = trace w @ [sel, EvIoctl fd 0x0720 wcmd]
        \<and> trace (fst (ReadBlockData E w c a reg buf)) = trace w @ [sel, EvIoctl fd 0x0720 rcmd]
        \<and> (e2 \<noteq> 0 \<longrightarrow> snd (ReadBlockData E w c a reg buf) = (Some (Errno e2), buf))
        \<and> (e2 = 0 \<longrightarrow> snd (ReadBlockData E w c a reg buf)
                          = (None, take (length buf) (drop 1 (poke rdata mem)))))"
proof -
  have n8: "unat (of_nat (length buf) :: 8 word) = length buf"
    using assms by (simp add: unat_of_nat)
  show ?thesis
    using n8
    by (simp add: WriteBlockData_eq [OF assms] ReadBlockData_eq [OF assms] Conn_addr_eq ioctl_eq
        Let_def const_defs)
qed

theorem block_data_scratch_buffer_witness:
  "length [1, 2, 3 :: 8 word] \<le> 32
   \<and> trace (fst (WriteBlockData echo_bus w0 c3 0x50 0x20 [1, 2, 3]))
       = [EvIoctl 3 0x0703 (ArgInt 0x50),
          EvIoctl 3 0x0720 (ArgCmd \<lparr>rw = 0, cmd = 0x20, len = 8, ptr = [3, 1, 2, 3]\<rparr>)]
   \<and> trace (fst (ReadBlockData echo_bus w_dev c3 0x50 0x20 [0, 0, 0]))
       = [EvIoctl 3 0x0703 (ArgInt 0x50),
          EvIoctl 3 0x0720 (ArgCmd \<lparr>rw = 1, cmd = 0x20, len = 8, ptr = [3, 0, 0, 0]\<rparr>)]
   \<and> snd (ReadBlockData echo_bus w_dev c3 0x50 0x20 [0, 0, 0]) = (None, [1, 2, 3])
   \<and> snd (ReadBlockData faulty_bus w0 c3 0x50 0xEE [7, 7]) = (Some (Errno 5), [7, 7])
   \<and> trace (fst (WriteBlockData busy_bus w0 c3 0x77 0x20 [1, 2, 3]))
       = [EvIoctl 3 0x0703 (ArgInt 0x77)]
   \<and> snd (WriteBlockData busy_bus w0 c3 0x77 0x20 [1, 2, 3]) = Some (Errno 16)
   \<and> snd (ReadBlockData busy_bus w0 c3 0x77 0x20 [7, 7]) = (Some (Errno 16), [7, 7])"
  using block_data_scratch_buffer [where buf = "[1, 2, 3]" and E = echo_bus and w = w0 and c = c3
          and a = "0x50" and reg = "0x20"]
        block_data_scratch_buffer [where buf = "[0, 0, 0]" and E = echo_bus and w = w_dev and c = c3
          and a = "0x50" and reg = "0x20"]
        block_data_scratch_buffer [where buf = "[7, 7]" and E = faulty_bus and w = w0 and c = c3
          and a = "0x50" and reg = "0xEE"]
        block_data_scratch_buffer [where buf = "[1, 2, 3]" and E = busy_bus and w = w0 and c = c3
          and a = "0x77" and reg = "0x20"]
        block_data_scratch_buffer [where buf = "[7, 7]" and E = busy_bus and w = w0 and c = c3
          and a = "0x77" and reg = "0x20"]
  by (simp add: Let_def mock_defs poke_def i2cSMBusRead_def)

section \<open>Block transactions: round trip on an echoing bus\<close>

text \<open>
  Claim C3. On a bus that echoes writes (\<open>echoes\<close>: selections and transfers
  succeed, a read transfer returns the scratch bytes last written for its register), for
  every buffer \<open>buf\<close> of at most 32 bytes, \<open>WriteBlockData(addr, reg, buf)\<close> succeeds
  and a following \<open>ReadBlockData(addr, reg, buf2)\<close> with \<open>len(buf2) = len(buf)\<close>
  succeeds and leaves the original bytes of \<open>buf\<close> in \<open>buf2\<close>.
\<close>

theorem block_data_round_trip:
  assumes "echoes E stored" and "length buf \<le> 32" and "length buf2 = length buf"
  shows "\<exists>w1 w2. WriteBlockData E w c a reg buf = (w1, None)
               \<and> ReadBlockData E w1 c a reg buf2 = (w2, None, buf)"
proof -
  note e = echoes_select [OF assms(1)] echoes_write [OF assms(1)] echoes_read [OF assms(1)]
  have len2: "length buf2 \<le> 32" using assms by simp
  obtain w1 where w1: "WriteBlockData E w c a reg buf = (w1, None)"
    and st: "stored (kstate w1) reg = of_nat (length buf) # buf"
    by (simp add: WriteBlockData_eq [OF assms(2)] Conn_addr_eq ioctl_eq Let_def e)
  have "ReadBlockData E w1 c a reg buf2 =
          (fst (ReadBlockData E w1 c a reg buf2), None, buf)"
    using st assms(3)
    by (simp add: ReadBlockData_eq [OF len2] Conn_addr_eq ioctl_eq Let_def e poke_full)
  with w1 show ?thesis by blast
qed

theorem block_data_round_trip_witness:
  "echoes echo_bus (\<lambda>s. s) \<and> length [1, 2, 3, 4, 5 :: 8 word] \<le> 32
   \<and> length [0, 0, 0, 0, 0 :: 8 word] = length [1, 2, 3, 4, 5 :: 8 word]
   \<and> (\<exists>w1 w2. WriteBlockData echo_bus w0 c3 0x50 0x20 [1, 2, 3, 4, 5] = (w1, None)
           \<and> ReadBlockData echo_bus w1 c3 0x50 0x20 [0, 0, 0, 0, 0] = (w2, None, [1, 2, 3, 4, 5]))"
proof -
  have h: "echoes echo_bus (\<lambda>s. s)"
    by (simp add: echoes_def mock_defs)
  show ?thesis
    using h block_data_round_trip [OF h, where buf = "[1, 2, 3, 4, 5]" and ?buf2.0 = "[0, 0, 0, 0, 0]"
        and w = w0 and c = c3 and a = "0x50" and reg = "0x20"]
    by simp
qed

section \<open>Close: restore, then release the handle\<close>

text \<open>
  Claim C6. \<open>Close\<close> visits the recorded backup registers in the order \<open>kvs\<close> the
  runtime's \<open>range\<close> yields (a permutation of the recorded entries, each visited
  once) and issues one \<open>WriteReg\<close> at the backup address for each; when all of them
  succeed the trace is exactly these writes followed by the closing of the handle. When
  a write fails, after the writes of \<open>pre\<close> succeeded, the world in which the handle is
  closed is the one right after the failed write (an address selection alone, or a
  selection and a transfer): nothing is issued for the remaining entries \<open>post\<close>. In
  every case the last call is the closing of the handle and the value \<open>Close\<close> returns
  is what closing the handle returned, never the error of a restore write.
\<close>

theorem Close_restores_then_closes:
  assumes "\<forall>m. mset (map_range E m) = mset m"
  shows
  "let kvs = map_range E (backupRegs c); fd = conn_f c; ba = backupaddr c;
       w1 = fst (restore E w c kvs)
   in mset kvs = mset (backupRegs c)
    \<and> Close E w c = file_Close E w1 fd
    \<and> trace (fst (Close E w c)) = trace w1 @ [EvClose fd]
    \<and> snd (Close E w c) = fst (sys_close E (kstate w1) fd)
    \<and> (snd (restore E w c kvs) = None \<longrightarrow>
         trace w1 = trace w @ concat (map (\<lambda>(k, v). WriteReg_evs c ba k v) kvs))
    \<and> (\<forall>pre k v post w2 w3 err.
          kvs = pre @ (k, v) # post \<and> restore E w c pre = (w2, None)
          \<and> WriteReg E w2 c ba k v = (w3, Some err)
          \<longrightarrow> w1 = w3
            \<and> trace w2 = trace w @ concat (map (\<lambda>(k, v). WriteReg_evs c ba k v) pre)
            \<and> (trace w3 = trace w2 @ [sel_ev c ba] \<or> trace w3 = trace w2 @ WriteReg_evs c ba k v)
            \<and> trace (fst (Close E w c)) = trace w3 @ [EvClose fd]
            \<and> snd (Close E w c) = fst (sys_close E (kstate w3) fd))"
proof -
  define kvs where "kvs = map_range E (backupRegs c)"
  define w1 where "w1 = fst (restore E w c kvs)"
  have perm: "mset kvs = mset (backupRegs c)"
    using assms by (simp add: kvs_def)
  have cl: "Close E w c = file_Close E w1 (conn_f c)"
    by (simp add: Close_def Close_loop_restore kvs_def w1_def)
  have tr: "trace (fst (Close E w c)) = trace w1 @ [EvClose (conn_f c)]"
    and res: "snd (Close E w c) = fst (sys_close E (kstate w1) (conn_f c))"
    by (simp_all add: cl file_Close_eq)
  have ok: "trace w1 = trace w @ concat (map (\<lambda>(k, v). WriteReg_evs c (backupaddr c) k v) kvs)"
    if "snd (restore E w c kvs) = None"
    using that restore_ok_trace [of E w c kvs w1] by (simp add: w1_def prod_eq_iff)
  have stop: "w1 = w3
      \<and> trace w2 = trace w @ concat (map (\<lambda>(k, v). WriteReg_evs c (backupaddr c) k v) pre)
      \<and> (trace w3 = trace w2 @ [sel_ev c (backupaddr c)]
          \<or> trace w3 = trace w2 @ WriteReg_evs c (backupaddr c) k v)
      \<and> trace (fst (Close E w c)) = trace w3 @ [EvClose (conn_f c)]
      \<and> snd (Close E w c) = fst (sys_close E (kstate w3) (conn_f c))"
    if "kvs = pre @ (k, v) # post" and "restore E w c pre = (w2, None)"
      and "WriteReg E w2 c (backupaddr c) k v = (w3, Some err)"
    for pre k v post w2 w3 err
  proof -
    have "restore E w c kvs = (w3, Some err)"
      using that by (simp add: restore_stops)
    then have "w1 = w3" by (simp add: w1_def)
    with that(2,3) tr res show ?thesis
      using restore_ok_trace [of E w c pre w2] WriteReg_fail_trace [of E w2 c "backupaddr c" k v w3 err]
      by simp
  qed
  show ?thesis
    unfolding Let_def kvs_def [symmetric] w1_def [symmetric]
    using perm cl tr res ok stop by blast
qed

theorem Close_restores_then_closes_witness:
  "(\<forall>m. mset (map_range faulty_bus m) = mset m)
   \<and> (\<forall>m. mset (map_range echo_bus m) = mset m)
   \<and> trace (fst (Close echo_bus w0 c_bk))
       = [EvIoctl 3 0x0703 (ArgInt 0x50),
          EvIoctl 3 0x0720 (ArgCmd \<lparr>rw = 0, cmd = 0x03, len = 2, ptr = [0xA3]\<rparr>),
          EvIoctl 3 0x0703 (ArgInt 0x50),
          EvIoctl 3 0x0720 (ArgCmd \<lparr>rw = 0, cmd = 0xDD, len = 2, ptr = [0xA2]\<rparr>),
          EvIoctl 3 0x0703 (ArgInt 0x50),
          EvIoctl 3 0x0720 (ArgCmd \<lparr>rw = 0, cmd = 0x01, len = 2, ptr = [0xA1]\<rparr>),
          EvClose 3]
   \<and> snd (Close echo_bus w0 c_bk) = None
   \<and> trace (fst (Close faulty_bus w0 c_bk))
       = [EvIoctl 3 0x0703 (ArgInt 0x50),
          EvIoctl 3 0x0720 (ArgCmd \<lparr>rw = 0, cmd = 0x03, len = 2, ptr = [0xA3]\<rparr>),
          EvIoctl 3 0x0703 (ArgInt 0x50),
          EvIoctl 3 0x0720 (ArgCmd \<lparr>rw = 0, cmd = 0xDD, len = 2, ptr = [0xA2]\<rparr>),
          EvClose 3]
   \<and> snd (Close faulty_bus w0 c_bk) = None"
proof -
  have h1: "\<forall>m. mset (map_range faulty_bus m) = mset m"
    and h2: "\<forall>m. mset (map_range echo_bus m) = mset m"
    by (simp_all add: mock_defs)
  show ?thesis
    using h1 h2 Close_restores_then_closes [OF h1, where w = w0 and c = c_bk]
      Close_restores_then_closes [OF h2, where w = w0 and c = c_bk]
    by (simp add: Let_def mock_defs WriteReg_def Conn_addr_eq ioctl_eq file_Close_eq const_defs)
qed

section \<open>Opening with a backup list\<close>

text \<open>
  Claim C5. \<open>OpenWithOptions\<close> with a non-nil backup list \<open>regs\<close>: when it returns
  a connection, the calls it made are the opening of the bus, the address selection and
  then, for every listed register in list order, one complete \<open>ReadReg\<close> at the bound
  address, and the connection holds the handle that was opened. When the read of a
  listed register \<open>i\<close> fails, after the reads of the registers \<open>pre\<close> before it
  succeeded (that is, opening with the list \<open>pre\<close> alone succeeds and gives \<open>c1\<close>),
  no connection is returned, the error returned is the error of that read, and the last
  call made is the closing of the handle that was opened. More generally, whenever the
  bus was opened and \<open>OpenWithOptions\<close> returns an error, its last call closes that
  handle.
\<close>

theorem OpenWithOptions_backup_reads:
  assumes "BackupRestoreRegs opts = Some regs"
    and "OpenWithOptions E w bus a (Some opts) = (w', r)"
  shows
  "(\<forall>c. r = Inr c \<longrightarrow>
      trace w' = trace w @ [EvOpen bus, sel_ev c a] @ concat (map (ReadReg_evs c a) regs)
      \<and> fst (sys_open E (kstate w) bus) = Inr (conn_f c))
   \<and> (\<forall>pre i post w1 c1 w2 v err.
        regs = pre @ i # post
        \<and> OpenWithOptions E w bus a (Some (opts\<lparr>BackupRestoreRegs := Some pre\<rparr>)) = (w1, Inr c1)
        \<and> ReadReg E w1 c1 a i = (w2, v, Some err)
        \<longrightarrow> r = Inl err \<and> last (trace w') = EvClose (conn_f c1)
          \<and> fst (sys_open E (kstate w) bus) = Inr (conn_f c1))
   \<and> (\<forall>err fd. r = Inl err \<and> fst (sys_open E (kstate w) bus) = Inr fd
        \<longrightarrow> last (trace w') = EvClose fd)"
proof (cases "fst (sys_open E (kstate w) bus)")
  case (Inl e)
  have "OpenWithOptions E w bus a (Some opt) = (fst (os_OpenFile E w bus), Inl e)" for opt
    using Inl by (simp add: OpenWithOptions_Some os_OpenFile_eq)
  with assms(2) Inl show ?thesis
    by auto
next
  case (Inr fd)
  define w1 where "w1 = fst (os_OpenFile E w bus)"
  define c0 where "c0 = \<lparr>conn_f = fd, force = Force opts, backupRegs = [], backupaddr = 0\<rparr>"
  define ca where "ca = \<lparr>conn_f = fd, force = Force opts, backupRegs = [], backupaddr = a\<rparr>"
  have op: "os_OpenFile E w bus = (w1, Inr fd)" and t1: "trace w1 = trace w @ [EvOpen bus]"
    using Inr by (simp_all add: w1_def os_OpenFile_eq)
  obtain w2 e where sel: "Conn_addr E w1 c0 a = (w2, e)"
    by (cases "Conn_addr E w1 c0 a")
  have t2: "trace w2 = trace w1 @ [sel_ev c0 a]"
    using sel by (rule Conn_addr_trace)
  show ?thesis
  proof (cases e)
    case (Some err)
    have full: "OpenWithOptions E w bus a (Some opt) = (fst (Close E w2 c0), Inl err)"
      if "Force opt = Force opts" for opt
      using op sel Some that by (simp add: OpenWithOptions_Some c0_def)
    from full [of opts] assms(2) have r: "r = Inl err" and w': "w' = fst (Close E w2 c0)"
      by simp_all
    have cl: "last (trace w') = EvClose fd"
      by (simp add: w' Close_last c0_def)
    have no: "OpenWithOptions E w bus a (Some (opts\<lparr>BackupRestoreRegs := Some pre\<rparr>)) \<noteq> (x, Inr y)"
      for pre x y
      using full [of "opts\<lparr>BackupRestoreRegs := Some pre\<rparr>"] by simp
    show ?thesis
      using r Inr cl no by simp
  next
    case None
    have full: "OpenWithOptions E w bus a (Some opt) = backup_loop E w2 ca a rs"
      if "Force opt = Force opts" and "BackupRestoreRegs opt = Some rs" for opt rs
      using op sel None that by (simp add: OpenWithOptions_Some c0_def ca_def)
    from full [of opts regs] assms have bl: "backup_loop E w2 ca a regs = (w', r)"
      by simp
    have evs: "sel_ev c0 a = sel_ev c a" "ReadReg_evs ca a = ReadReg_evs c a"
      if "conn_f c = conn_f ca" and "force c = force ca" for c
      using that by (simp_all add: fun_eq_iff sel_ev_def ReadReg_evs_def c0_def ca_def)
    have A: "trace w' = trace w @ [EvOpen bus, sel_ev c a] @ concat (map (ReadReg_evs c a) regs)
              \<and> fst (sys_open E (kstate w) bus) = Inr (conn_f c)"
      if "r = Inr c" for c
    proof -
      from bl that have "backup_loop E w2 ca a regs = (w', Inr c)" by simp
      from backup_loop_ok [OF this] have
        tr: "trace w' = trace w2 @ concat (map (ReadReg_evs ca a) regs)"
        and f: "conn_f c = conn_f ca" "force c = force ca"
        by blast+
      have "fst (sys_open E (kstate w) bus) = Inr (conn_f c)"
        using Inr f by (simp add: ca_def)
      moreover have "trace w' = trace w @ [EvOpen bus, sel_ev c a] @ concat (map (ReadReg_evs c a) regs)"
        by (simp add: tr t2 t1 evs [OF f])
      ultimately show ?thesis by simp
    qed
    have B: "r = Inl err \<and> last (trace w') = EvClose (conn_f c1)
              \<and> fst (sys_open E (kstate w) bus) = Inr (conn_f c1)"
      if "regs = pre @ i # post"
        and "OpenWithOptions E w bus a (Some (opts\<lparr>BackupRestoreRegs := Some pre\<rparr>)) = (wp, Inr c1)"
        and "ReadReg E wp c1 a i = (wq, v, Some err)"
      for pre i post wp c1 wq v err
    proof -
      from full [of "opts\<lparr>BackupRestoreRegs := Some pre\<rparr>" pre] that(2)
      have pre: "backup_loop E w2 ca a pre = (wp, Inr c1)" by simp
      from backup_loop_stops [OF pre that(3), of post] bl that(1)
      have r: "r = Inl err" and w': "w' = fst (Close E wq c1)" by simp_all
      from backup_loop_ok [OF pre] have "conn_f c1 = conn_f ca" by blast
      then have "fst (sys_open E (kstate w) bus) = Inr (conn_f c1)"
        using Inr by (simp add: ca_def)
      with r w' show ?thesis by (simp add: Close_last)
    qed
    have C: "last (trace w') = EvClose fd'"
      if "r = Inl err" and "fst (sys_open E (kstate w) bus) = Inr fd'" for err fd'
    proof -
      from bl that(1) have "backup_loop E w2 ca a regs = (w', Inl err)" by simp
      from backup_loop_fail [OF this] that(2) Inr show ?thesis by (simp add: ca_def)
    qed
    from A B C show ?thesis by blast
  qed
qed

theorem OpenWithOptions_backup_reads_witness:
  "BackupRestoreRegs \<lparr>Force = False, BackupRestoreRegs = Some [0x01, 0x02]\<rparr> = Some [0x01, 0x02]
   \<and> BackupRestoreRegs \<lparr>Force = False, BackupRestoreRegs = Some [0x01, 0xEE, 0x02]\<rparr>
       = Some [0x01, 0xEE, 0x02]
   \<and> snd (OpenWithOptions echo_bus w_regs 1 0x50
             (Some \<lparr>Force = False, BackupRestoreRegs = Some [0x01, 0x02]\<rparr>))
       = Inr \<lparr>conn_f = 3, force = False, backupRegs = [(0x01, 0xA1), (0x02, 0xA2)],
               backupaddr = 0x50\<rparr>
   \<and> trace (fst (OpenWithOptions echo_bus w_regs 1 0x50
                    (Some \<lparr>Force = False, BackupRestoreRegs = Some [0x01, 0x02]\<rparr>)))
       = [EvOpen 1, EvIoctl 3 0x0703 (ArgInt 0x50),
          EvIoctl 3 0x0703 (ArgInt 0x50),
          EvIoctl 3 0x0720 (ArgCmd \<lparr>rw = 1, cmd = 0x01, len = 2, ptr = [0]\<rparr>),
          EvIoctl 3 0x0703 (ArgInt 0x50),
          EvIoctl 3 0x0720 (ArgCmd \<lparr>rw = 1, cmd = 0x02, len = 2, ptr = [0]\<rparr>)]
   \<and> snd (OpenWithOptions faulty_bus w_regs 1 0x50
             (Some \<lparr>Force = False, BackupRestoreRegs = Some [0x01, 0xEE, 0x02]\<rparr>))
       = Inl (Errno 5)
   \<and> last (trace (fst (OpenWithOptions faulty_bus w_regs 1 0x50
                    (Some \<lparr>Force = False, BackupRestoreRegs = Some [0x01, 0xEE, 0x02]\<rparr>))))
       = EvClose 3"
proof -
  let ?o1 = "\<lparr>Force = False, BackupRestoreRegs = Some [0x01, 0x02 :: 8 word]\<rparr>"
  let ?o2 = "\<lparr>Force = False, BackupRestoreRegs = Some [0x01, 0xEE, 0x02 :: 8 word]\<rparr>"
  let ?C = "\<lparr>conn_f = 3, force = False, backupRegs = [(0x01, 0xA1), (0x02, 0xA2)],
             backupaddr = 0x50\<rparr>"
  let ?C1 = "\<lparr>conn_f = 3, force = False, backupRegs = [(0x01, 0xA1)], backupaddr = 0x50\<rparr>"
  let ?X = "OpenWithOptions echo_bus w_regs 1 0x50 (Some ?o1)"
  let ?Y = "OpenWithOptions faulty_bus w_regs 1 0x50 (Some ?o2)"
  let ?P = "OpenWithOptions faulty_bus w_regs 1 0x50 (Some (?o2\<lparr>BackupRestoreRegs := Some [0x01]\<rparr>))"
  let ?R = "ReadReg faulty_bus (fst ?P) ?C1 0x50 0xEE"
  have h1: "BackupRestoreRegs ?o1 = Some [0x01, 0x02]"
    and h2: "BackupRestoreRegs ?o2 = Some [0x01, 0xEE, 0x02]"
    by simp_all
  have x: "?X = (fst ?X, snd ?X)" and y: "?Y = (fst ?Y, snd ?Y)"
    by simp_all
  have r1: "snd ?X = Inr ?C"
    by code_simp
  have "snd ?P = Inr ?C1"
    by code_simp
  then have p: "?P = (fst ?P, Inr ?C1)"
    by (simp add: prod_eq_iff)
  have "snd (snd ?R) = Some (Errno 5)"
    by code_simp
  then have rr: "?R = (fst ?R, fst (snd ?R), Some (Errno 5))"
    by (simp add: prod_eq_iff)
  have split: "[0x01, 0xEE, 0x02 :: 8 word] = [0x01] @ 0xEE # [0x02]"
    by simp
  note T1 = OpenWithOptions_backup_reads [OF h1 x]
  note T2 = OpenWithOptions_backup_reads [OF h2 y]
  from T1 r1 have "trace (fst ?X)
      = trace w_regs @ [EvOpen 1, sel_ev ?C 0x50] @ concat (map (ReadReg_evs ?C 0x50) [0x01, 0x02])"
    by blast
  then have tr: "trace (fst ?X)
       = [EvOpen 1, EvIoctl 3 0x0703 (ArgInt 0x50),
          EvIoctl 3 0x0703 (ArgInt 0x50),
          EvIoctl 3 0x0720 (ArgCmd \<lparr>rw = 1, cmd = 0x01, len = 2, ptr = [0]\<rparr>),
          EvIoctl 3 0x0703 (ArgInt 0x50),
          EvIoctl 3 0x0720 (ArgCmd \<lparr>rw = 1, cmd = 0x02, len = 2, ptr = [0]\<rparr>)]"
    by (simp add: sel_ev_def ReadReg_evs_def w_regs_def const_defs)
  from T2 split p rr have "snd ?Y = Inl (Errno 5) \<and> last (trace (fst ?Y)) = EvClose (conn_f ?C1)"
    by blast
  then have f: "snd ?Y = Inl (Errno 5)" "last (trace (fst ?Y)) = EvClose 3"
    by simp_all
  from h1 h2 r1 tr f show ?thesis
    by (simp only: simp_thms)
qed

section \<open>An aborted open restores what it recorded\<close>

text \<open>
  Claim C10, as stated, has the \<open>Close\<close> inside an aborted \<open>OpenWithOptions\<close>
  write back every register value already recorded. \<open>Close\<close> stops restoring at the
  first write that fails (part_000, lines 155-160), so a recorded value can be skipped.
  On an adapter where register 0xDD cannot be written and register 0xEE cannot be read,
  opening with the list 0x01, 0xDD, 0xEE records 0x01 and 0xDD, the read of 0xEE
  fails, the restore visits 0xDD first, its write fails, and the handle is closed: the
  recorded value 0xA1 of register 0x01 is never written back.
\<close>

theorem aborted_open_skips_restore_counterexample:
  "snd (OpenWithOptions faulty_bus w_regs 1 0x50
          (Some \<lparr>Force = False, BackupRestoreRegs = Some [0x01, 0xDD]\<rparr>))
     = Inr \<lparr>conn_f = 3, force = False, backupRegs = [(0x01, 0xA1), (0xDD, 0)],
             backupaddr = 0x50\<rparr>
   \<and> snd (OpenWithOptions faulty_bus w_regs 1 0x50
             (Some \<lparr>Force = False, BackupRestoreRegs = Some [0x01, 0xDD, 0xEE]\<rparr>))
       = Inl (Errno 5)
   \<and> trace (fst (OpenWithOptions faulty_bus w_regs 1 0x50
                    (Some \<lparr>Force = False, BackupRestoreRegs = Some [0x01, 0xDD, 0xEE]\<rparr>)))
       = [EvOpen 1, EvIoctl 3 0x0703 (ArgInt 0x50),
          EvIoctl 3 0x0703 (ArgInt 0x50),
          EvIoctl 3 0x0720 (ArgCmd \<lparr>rw = 1, cmd = 0x01, len = 2, ptr = [0]\<rparr>),
          EvIoctl 3 0x0703 (ArgInt 0x50),
          EvIoctl 3 0x0720 (ArgCmd \<lparr>rw = 1, cmd = 0xDD, len = 2, ptr = [0]\<rparr>),
          EvIoctl 3 0x0703 (ArgInt 0x50),
          EvIoctl 3 0x0720 (ArgCmd \<lparr>rw = 1, cmd = 0xEE, len = 2, ptr = [0]\<rparr>),
          EvIoctl 3 0x0703 (ArgInt 0x50),
          EvIoctl 3 0x0720 (ArgCmd \<lparr>rw = 0, cmd = 0xDD, len = 2, ptr = [0]\<rparr>),
          EvClose 3]
   \<and> EvIoctl 3 0x0720 (ArgCmd \<lparr>rw = 0, cmd = 0x01, len = 2, ptr = [0xA1]\<rparr>)
       \<notin> set (trace (fst (OpenWithOptions faulty_bus w_regs 1 0x50
                    (Some \<lparr>Force = False, BackupRestoreRegs = Some [0x01, 0xDD, 0xEE]\<rparr>))))"
  by code_simp

text \<open>
  Claim C10, amended. When \<open>OpenWithOptions\<close> aborts because the read of a listed
  register \<open>i\<close> fails, after the reads of the registers \<open>pre\<close> before it succeeded
  and were recorded in the backup map of \<open>c1\<close>, what it does next is \<open>Close\<close> on
  \<open>c1\<close>: the backup address is the bound address, the recorded registers are exactly
  those of \<open>pre\<close>, and \<open>Close\<close> visits the recorded entries in the order \<open>kvs\<close> of
  the runtime's \<open>range\<close>, each once. When all restore writes succeed, the calls after
  the failed read are one complete \<open>WriteReg\<close> at the bound address for every recorded
  entry, and then the closing of the handle. When a restore write fails, after the writes
  of \<open>pr\<close> succeeded, the calls after the failed read are the writes of \<open>pr\<close>, the
  failed write (an address selection alone, or a selection and a transfer) and the
  closing of the handle: the entries \<open>po\<close> after it are skipped. Whenever something
  was recorded, the first call after the failed read is an address selection for a
  restore write, so the aborted open can still produce writes on the bus. The error
  returned is the read's.
\<close>

theorem aborted_open_restores_recorded:
  assumes "\<forall>m. mset (map_range E m) = mset m"
    and "BackupRestoreRegs opts = Some (pre @ i # post)"
    and "OpenWithOptions E w bus a (Some (opts\<lparr>BackupRestoreRegs := Some pre\<rparr>)) = (w1, Inr c1)"
    and "ReadReg E w1 c1 a i = (w2, v, Some err)"
  shows
  "let kvs = map_range E (backupRegs c1);
       R = OpenWithOptions E w bus a (Some opts)
   in R = (fst (Close E w2 c1), Inl err)
    \<and> backupaddr c1 = a
    \<and> fst ` set (backupRegs c1) = set pre
    \<and> mset kvs = mset (backupRegs c1)
    \<and> (snd (restore E w2 c1 kvs) = None \<longrightarrow>
          trace (fst R)
            = trace w2 @ concat (map (\<lambda>(k, v). WriteReg_evs c1 a k v) kvs) @ [EvClose (conn_f c1)])
    \<and> (\<forall>pr k x po wa wb e.
          kvs = pr @ (k, x) # po \<and> restore E w2 c1 pr = (wa, None)
          \<and> WriteReg E wa c1 a k x = (wb, Some e)
          \<longrightarrow> trace wa = trace w2 @ concat (map (\<lambda>(k, v). WriteReg_evs c1 a k v) pr)
            \<and> (trace wb = trace wa @ [sel_ev c1 a] \<or> trace wb = trace wa @ WriteReg_evs c1 a k x)
            \<and> trace (fst R) = trace wb @ [EvClose (conn_f c1)])
    \<and> (pre \<noteq> [] \<longrightarrow> (\<exists>evs. trace (fst R) = trace w2 @ sel_ev c1 a # evs))"
proof -
  define kvs where "kvs = map_range E (backupRegs c1)"
  define R where "R = OpenWithOptions E w bus a (Some opts)"
  let ?op = "opts\<lparr>BackupRestoreRegs := Some pre\<rparr>"
  from OpenWithOptions_loop [OF assms(3), of pre]
  obtain fd wa where L: "\<And>opt' rs'. Force opt' = Force ?op \<Longrightarrow> BackupRestoreRegs opt' = Some rs' \<Longrightarrow>
           OpenWithOptions E w bus a (Some opt')
             = backup_loop E wa \<lparr>conn_f = fd, force = Force ?op, backupRegs = [], backupaddr = a\<rparr>
                 a rs'"
    by auto
  define ca where "ca = \<lparr>conn_f = fd, force = Force ?op, backupRegs = [], backupaddr = a\<rparr>"
  from L [of ?op pre] assms(3) have pre: "backup_loop E wa ca a pre = (w1, Inr c1)"
    by (simp add: ca_def)
  from L [of opts "pre @ i # post"] assms(2)
  have "R = backup_loop E wa ca a (pre @ i # post)"
    by (simp add: ca_def R_def)
  with backup_loop_stops [OF pre assms(4), of post]
  have R: "R = (fst (Close E w2 c1), Inl err)" by simp
  from backup_loop_ok [OF pre] have ba: "backupaddr c1 = a"
    and keys: "fst ` set (backupRegs c1) = set pre"
    by (simp_all add: ca_def)
  have perm: "mset kvs = mset (backupRegs c1)"
    using assms(1) by (simp add: kvs_def)
  have tr: "trace (fst R) = trace (fst (restore E w2 c1 kvs)) @ [EvClose (conn_f c1)]"
    by (simp add: R Close_trace kvs_def)
  have ok: "trace (fst R)
            = trace w2 @ concat (map (\<lambda>(k, v). WriteReg_evs c1 a k v) kvs) @ [EvClose (conn_f c1)]"
    if "snd (restore E w2 c1 kvs) = None"
    using that restore_ok_trace [of E w2 c1 kvs "fst (restore E w2 c1 kvs)"] ba
    by (simp add: tr prod_eq_iff)
  have first: "\<exists>evs. trace (fst R) = trace w2 @ sel_ev c1 a # evs" if "pre \<noteq> []"
  proof -
    from that keys have "backupRegs c1 \<noteq> []" by auto
    with perm have "kvs \<noteq> []" by auto
    from restore_first [OF this, of E w2 c1] ba tr show ?thesis by auto
  qed
  have stop: "trace wa = trace w2 @ concat (map (\<lambda>(k, v). WriteReg_evs c1 a k v) pr)
      \<and> (trace wb = trace wa @ [sel_ev c1 a] \<or> trace wb = trace wa @ WriteReg_evs c1 a k x)
      \<and> trace (fst R) = trace wb @ [EvClose (conn_f c1)]"
    if "kvs = pr @ (k, x) # po" and "restore E w2 c1 pr = (wa, None)"
      and "WriteReg E wa c1 a k x = (wb, Some e)"
    for pr k x po wa wb e
  proof -
    from that(3) ba have wr: "WriteReg E wa c1 (backupaddr c1) k x = (wb, Some e)"
      by simp
    from restore_stops [OF that(2) wr, of po] that(1)
    have "restore E w2 c1 kvs = (wb, Some e)" by simp
    with tr have "trace (fst R) = trace wb @ [EvClose (conn_f c1)]" by simp
    moreover from restore_ok_trace [OF that(2)] ba
    have "trace wa = trace w2 @ concat (map (\<lambda>(k, v). WriteReg_evs c1 a k v) pr)" by simp
    moreover from WriteReg_fail_trace [OF that(3)]
    have "trace wb = trace wa @ [sel_ev c1 a] \<or> trace wb = trace wa @ WriteReg_evs c1 a k x" .
    ultimately show ?thesis by blast
  qed
  show ?thesis
    unfolding Let_def kvs_def [symmetric] R_def [symmetric]
    using R ba keys perm ok stop first by blast
qed

theorem aborted_open_restores_recorded_witness:
  "(\<forall>m. mset (map_range faulty_bus m) = mset m)
   \<and> BackupRestoreRegs \<lparr>Force = False, BackupRestoreRegs = Some [0x01, 0xEE, 0x02]\<rparr>
       = Some ([0x01] @ 0xEE # [0x02])
   \<and> snd (OpenWithOptions faulty_bus w_regs 1 0x50
             (Some \<lparr>Force = False, BackupRestoreRegs = Some [0x01, 0xEE, 0x02]\<rparr>))
       = Inl (Errno 5)
   \<and> trace (fst (OpenWithOptions faulty_bus w_regs 1 0x50
                    (Some \<lparr>Force = False, BackupRestoreRegs = Some [0x01, 0xEE, 0x02]\<rparr>)))
       = [EvOpen 1, EvIoctl 3 0x0703 (ArgInt 0x50),
          EvIoctl 3 0x0703 (ArgInt 0x50),
          EvIoctl 3 0x0720 (ArgCmd \<lparr>rw = 1, cmd = 0x01, len = 2, ptr = [0]\<rparr>),
          EvIoctl 3 0x0703 (ArgInt 0x50),
          EvIoctl 3 0x0720 (ArgCmd \<lparr>rw = 1, cmd = 0xEE, len = 2, ptr = [0]\<rparr>),
          EvIoctl 3 0x0703 (ArgInt 0x50),
          EvIoctl 3 0x0720 (ArgCmd \<lparr>rw = 0, cmd = 0x01, len = 2, ptr = [0xA1]\<rparr>),
          EvClose 3]
   \<and> BackupRestoreRegs \<lparr>Force = False, BackupRestoreRegs = Some [0x01, 0xDD, 0xEE]\<rparr>
       = Some ([0x01, 0xDD] @ 0xEE # [])
   \<and> snd (OpenWithOptions faulty_bus w_regs 1 0x50
             (Some \<lparr>Force = False, BackupRestoreRegs = Some [0x01, 0xDD, 0xEE]\<rparr>))
       = Inl (Errno 5)
   \<and> trace (fst (OpenWithOptions faulty_bus w_regs 1 0x50
                    (Some \<lparr>Force = False, BackupRestoreRegs = Some [0x01, 0xDD, 0xEE]\<rparr>)))
       = [EvOpen 1, EvIoctl 3 0x0703 (ArgInt 0x50),
          EvIoctl 3 0x0703 (ArgInt 0x50),
          EvIoctl 3 0x0720 (ArgCmd \<lparr>rw = 1, cmd = 0x01, len = 2, ptr = [0]\<rparr>),
          EvIoctl 3 0x0703 (ArgInt 0x50),
          EvIoctl 3 0x0720 (ArgCmd \<lparr>rw = 1, cmd = 0xDD, len = 2, ptr = [0]\<rparr>),
          EvIoctl 3 0x0703 (ArgInt 0x50),
          EvIoctl 3 0x0720 (ArgCmd \<lparr>rw = 1, cmd = 0xEE, len = 2, ptr = [0]\<rparr>),
          EvIoctl 3 0x0703 (ArgInt 0x50),
          EvIoctl 3 0x0720 (ArgCmd \<lparr>rw = 0, cmd = 0xDD, len = 2, ptr = [0]\<rparr>),
          EvClose 3]"
proof -
  let ?o2 = "\<lparr>Force = False, BackupRestoreRegs = Some [0x01, 0xEE, 0x02 :: 8 word]\<rparr>"
  let ?C1 = "\<lparr>conn_f = 3, force = False, backupRegs = [(0x01, 0xA1)], backupaddr = 0x50\<rparr>"
  let ?Y = "OpenWithOptions faulty_bus w_regs 1 0x50 (Some ?o2)"
  let ?P = "OpenWithOptions faulty_bus w_regs 1 0x50
              (Some \<lparr>Force = False, BackupRestoreRegs = Some [0x01]\<rparr>)"
  let ?R = "ReadReg faulty_bus (fst ?P) ?C1 0x50 0xEE"
  have h0: "\<forall>m. mset (map_range faulty_bus m) = mset m"
    by (simp add: mock_defs)
  have h2: "BackupRestoreRegs ?o2 = Some ([0x01] @ 0xEE # [0x02])"
    by simp
  have "snd ?P = Inr ?C1"
    by code_simp
  then have p: "OpenWithOptions faulty_bus w_regs 1 0x50
                   (Some (?o2\<lparr>BackupRestoreRegs := Some [0x01]\<rparr>)) = (fst ?P, Inr ?C1)"
    by (simp add: prod_eq_iff)
  have "snd (snd ?R) = Some (Errno 5)"
    by code_simp
  then have rr: "?R = (fst ?R, fst (snd ?R), Some (Errno 5))"
    by (simp add: prod_eq_iff)
  have kvs: "map_range faulty_bus (backupRegs ?C1) = [(0x01, 0xA1)]"
    by (simp add: mock_defs)
  have ok: "snd (restore faulty_bus (fst ?R) ?C1 [(0x01, 0xA1)]) = None"
    by code_simp
  have t2: "trace (fst ?R)
       = [EvOpen 1, EvIoctl 3 0x0703 (ArgInt 0x50),
          EvIoctl 3 0x0703 (ArgInt 0x50),
          EvIoctl 3 0x0720 (ArgCmd \<lparr>rw = 1, cmd = 0x01, len = 2, ptr = [0]\<rparr>),
          EvIoctl 3 0x0703 (ArgInt 0x50),
          EvIoctl 3 0x0720 (ArgCmd \<lparr>rw = 1, cmd = 0xEE, len = 2, ptr = [0]\<rparr>)]"
    by code_simp
  note T = aborted_open_restores_recorded [OF h0 h2 p rr, unfolded Let_def kvs]
  from T have r: "snd ?Y = Inl (Errno 5)"
    by simp
  from T ok have "trace (fst ?Y)
      = trace (fst ?R) @ concat (map (\<lambda>(k, v). WriteReg_evs ?C1 0x50 k v) [(0x01, 0xA1)])
          @ [EvClose (conn_f ?C1)]"
    by blast
  then have tr: "trace (fst ?Y)
       = [EvOpen 1, EvIoctl 3 0x0703 (ArgInt 0x50),
          EvIoctl 3 0x0703 (ArgInt 0x50),
          EvIoctl 3 0x0720 (ArgCmd \<lparr>rw = 1, cmd = 0x01, len = 2, ptr = [0]\<rparr>),
          EvIoctl 3 0x0703 (ArgInt 0x50),
          EvIoctl 3 0x0720 (ArgCmd \<lparr>rw = 1, cmd = 0xEE, len = 2, ptr = [0]\<rparr>),
          EvIoctl 3 0x0703 (ArgInt 0x50),
          EvIoctl 3 0x0720 (ArgCmd \<lparr>rw = 0, cmd = 0x01, len = 2, ptr = [0xA1]\<rparr>),
          EvClose 3]"
    by (simp add: t2 WriteReg_evs_def sel_ev_def const_defs)
  let ?o3 = "\<lparr>Force = False, BackupRestoreRegs = Some [0x01, 0xDD, 0xEE :: 8 word]\<rparr>"
  let ?C2 = "\<lparr>conn_f = 3, force = False, backupRegs = [(0x01, 0xA1), (0xDD, 0)],
              backupaddr = 0x50\<rparr>"
  let ?Z = "OpenWithOptions faulty_bus w_regs 1 0x50 (Some ?o3)"
  let ?P2 = "OpenWithOptions faulty_bus w_regs 1 0x50
               (Some \<lparr>Force = False, BackupRestoreRegs = Some [0x01, 0xDD]\<rparr>)"
  let ?R2 = "ReadReg faulty_bus (fst ?P2) ?C2 0x50 0xEE"
  let ?W = "WriteReg faulty_bus (fst ?R2) ?C2 0x50 0xDD 0"
  have h3: "BackupRestoreRegs ?o3 = Some ([0x01, 0xDD] @ 0xEE # [])"
    by simp
  have "snd ?P2 = Inr ?C2"
    by code_simp
  then have p2: "OpenWithOptions faulty_bus w_regs 1 0x50
                   (Some (?o3\<lparr>BackupRestoreRegs := Some [0x01, 0xDD]\<rparr>)) = (fst ?P2, Inr ?C2)"
    by (simp add: prod_eq_iff)
  have "snd (snd ?R2) = Some (Errno 5)"
    by code_simp
  then have rr2: "?R2 = (fst ?R2, fst (snd ?R2), Some (Errno 5))"
    by (simp add: prod_eq_iff)
  have kvs2: "map_range faulty_bus (backupRegs ?C2) = [(0xDD, 0), (0x01, 0xA1)]"
    by (simp add: mock_defs)
  have "snd ?W = Some (Errno 5)"
    by code_simp
  then have wf: "?W = (fst ?W, Some (Errno 5))"
    by (simp add: prod_eq_iff)
  have tw: "trace (fst ?W)
       = [EvOpen 1, EvIoctl 3 0x0703 (ArgInt 0x50),
          EvIoctl 3 0x0703 (ArgInt 0x50),
          EvIoctl 3 0x0720 (ArgCmd \<lparr>rw = 1, cmd = 0x01, len = 2, ptr = [0]\<rparr>),
          EvIoctl 3 0x0703 (ArgInt 0x50),
          EvIoctl 3 0x0720 (ArgCmd \<lparr>rw = 1, cmd = 0xDD, len = 2, ptr = [0]\<rparr>),
          EvIoctl 3 0x0703 (ArgInt 0x50),
          EvIoctl 3 0x0720 (ArgCmd \<lparr>rw = 1, cmd = 0xEE, len = 2, ptr = [0]\<rparr>),
          EvIoctl 3 0x0703 (ArgInt 0x50),
          EvIoctl 3 0x0720 (ArgCmd \<lparr>rw = 0, cmd = 0xDD, len = 2, ptr = [0]\<rparr>)]"
    by code_simp
  note T2 = aborted_open_restores_recorded [OF h0 h3 p2 rr2, unfolded Let_def kvs2]
  from T2 have r2: "snd ?Z = Inl (Errno 5)"
    by simp
  note S = T2 [THEN conjunct2, THEN conjunct2, THEN conjunct2, THEN conjunct2, THEN conjunct2,
      THEN conjunct1, rule_format,
      of "[]" "0xDD" 0 "[(0x01, 0xA1)]" "fst ?R2" "fst ?W" "Errno 5"]
  have "[(0xDD, 0), (0x01, 0xA1)] = [] @ (0xDD, 0) # [(0x01 :: 8 word, 0xA1 :: 8 word)]
      \<and> restore faulty_bus (fst ?R2) ?C2 [] = (fst ?R2, None)
      \<and> ?W = (fst ?W, Some (Errno 5))"
    using wf by simp
  from S [OF this] have "trace (fst ?Z) = trace (fst ?W) @ [EvClose (conn_f ?C2)]"
    by blast
  then have tr2: "trace (fst ?Z)
       = [EvOpen 1, EvIoctl 3 0x0703 (ArgInt 0x50),
          EvIoctl 3 0x0703 (ArgInt 0x50),
          EvIoctl 3 0x0720 (ArgCmd \<lparr>rw = 1, cmd = 0x01, len = 2, ptr = [0]\<rparr>),
          EvIoctl 3 0x0703 (ArgInt 0x50),
          EvIoctl 3 0x0720 (ArgCmd \<lparr>rw = 1, cmd = 0xDD, len = 2, ptr = [0]\<rparr>),
          EvIoctl 3 0x0703 (ArgInt 0x50),
          EvIoctl 3 0x0720 (ArgCmd \<lparr>rw = 1, cmd = 0xEE, len = 2, ptr = [0]\<rparr>),
          EvIoctl 3 0x0703 (ArgInt 0x50),
          EvIoctl 3 0x0720 (ArgCmd \<lparr>rw = 0, cmd = 0xDD, len = 2, ptr = [0]\<rparr>),
          EvClose 3]"
    by (simp add: tw)
  from h0 h2 r tr h3 r2 tr2 show ?thesis
    by (simp only: simp_thms)
qed

section \<open>Panics and the nil options pointer\<close>

text \<open>
  Claim C7, as stated, makes a nil options pointer a panic path. In the source both
  \<open>OpenWithOptions\<close> and \<open>OpenFileWithOptions\<close> test \<open>opts == nil\<close> before the
  first dereference and return \<open>nil\<close> and the error \<open>opts is nil\<close>. On the mock
  adapter, with bus 1 and address 0x50, the call returns that error and the world is
  untouched: this is an error return, not a panic.
\<close>

theorem nil_options_returns_error_counterexample:
  "OpenWithOptions echo_bus w0 1 0x50 None = (w0, Inl (Errorf ''opts is nil''))
   \<and> OpenFileWithOptions echo_bus w0 1 None = (w0, Inl (Errorf ''opts is nil''))
   \<and> go_OpenWithOptions echo_bus w0 1 0x50 None = Return (w0, Inl (Errorf ''opts is nil''))
   \<and> go_OpenFileWithOptions echo_bus w0 1 None = Return (w0, Inl (Errorf ''opts is nil''))"
  by (simp add: OpenWithOptions_def OpenFileWithOptions_def go_OpenWithOptions_def
      go_OpenFileWithOptions_def)

text \<open>
  Claim C7, amended. No public operation panics for an expected failure condition,
  and a nil options pointer is not a panic path either. Whatever the operating system
  answers and whatever the arguments: the four open functions return, for every options
  pointer, nil included (a nil options pointer gives no connection and the error
  \<open>opts is nil\<close>, with no call issued; a bus that cannot be opened gives no connection
  and the error of \<open>os.OpenFile\<close>); and every method (\<open>Write\<close>, \<open>WriteByte\<close>,
  \<open>Read\<close>, \<open>Close\<close>, \<open>SetAddr\<close>, \<open>ReadReg\<close>, \<open>WriteReg\<close>, \<open>ReadWord\<close>,
  \<open>WriteWord\<close>, \<open>ReadBlockData\<close>, \<open>WriteBlockData\<close>) called on a connection that
  is not nil returns what the embedded operation returns, none of its dereferences,
  \<open>make\<close>, index or slice expressions panicking. The only panic path is programmer
  misuse: a method called on a nil connection panics (the two block operations return
  the size-limit error first when the buffer is longer than 32 bytes).
\<close>

theorem public_operations_return:
  "OpenWithOptions E w bus a None = (w, Inl (Errorf ''opts is nil''))
   \<and> OpenFileWithOptions E w bus None = (w, Inl (Errorf ''opts is nil''))
   \<and> (\<forall>e. fst (sys_open E (kstate w) bus) = Inl e \<longrightarrow>
          snd (OpenWithOptions E w bus a (Some opt)) = Inl e
        \<and> snd (Open E w bus a) = Inl e
        \<and> snd (OpenFile E w bus) = Inl e)
   \<and> go_OpenFileWithOptions E w bus opts = Return (OpenFileWithOptions E w bus opts)
   \<and> go_OpenFile E w bus = Return (OpenFile E w bus)
   \<and> go_OpenWithOptions E w bus a opts = Return (OpenWithOptions E w bus a opts)
   \<and> go_Open E w bus a = Return (Open E w bus a)
   \<and> go_Write F w (Some c) buf = Return (Write F w c buf)
   \<and> go_WriteByte F w (Some c) b = Return (WriteByte F w c b)
   \<and> go_Read F w (Some c) buf = Return (Read F w c buf)
   \<and> go_Close E w (Some c) = Return (Close E w c)
   \<and> go_SetAddr E w (Some c) a = Return (SetAddr E w c a)
   \<and> go_ReadReg E w (Some c) a reg = Return (ReadReg E w c a reg)
   \<and> go_WriteReg E w (Some c) a reg v = Return (WriteReg E w c a reg v)
   \<and> go_ReadWord E w (Some c) a reg = Return (ReadWord E w c a reg)
   \<and> go_WriteWord E w (Some c) a reg v16 = Return (WriteWord E w c a reg v16)
   \<and> go_ReadBlockData E w (Some c) a reg buf = Return (ReadBlockData E w c a reg buf)
   \<and> go_WriteBlockData E w (Some c) a reg buf = Return (WriteBlockData E w c a reg buf)
   \<and> go_Write F w None buf = Panic
   \<and> go_WriteByte F w None b = Panic
   \<and> go_Read F w None buf = Panic
   \<and> go_Close E w None = Panic
   \<and> go_SetAddr E w None a = Panic
   \<and> go_ReadReg E w None a reg = Panic
   \<and> go_WriteReg E w None a reg v = Panic
   \<and> go_ReadWord E w None a reg = Panic
   \<and> go_WriteWord E w None a reg v16 = Panic
   \<and> (length buf \<le> 32 \<longrightarrow>
          go_ReadBlockData E w None a reg buf = Panic
        \<and> go_WriteBlockData E w None a reg buf = Panic)
   \<and> (length buf > 32 \<longrightarrow>
          go_ReadBlockData E w None a reg buf = Return (w, Some errSMBusBlockDataMax, buf)
        \<and> go_WriteBlockData E w None a reg buf = Return (w, Some errSMBusBlockDataMax))"
proof -
  have opens: "OpenWithOptions E w bus a None = (w, Inl (Errorf ''opts is nil''))
     \<and> OpenFileWithOptions E w bus None = (w, Inl (Errorf ''opts is nil''))
     \<and> (\<forall>e. fst (sys_open E (kstate w) bus) = Inl e \<longrightarrow>
          snd (OpenWithOptions E w bus a (Some opt)) = Inl e
        \<and> snd (Open E w bus a) = Inl e
        \<and> snd (OpenFile E w bus) = Inl e)"
    by (simp add: OpenWithOptions_def OpenFileWithOptions_def Open_def OpenFile_def os_OpenFile_eq)
  have go_opens: "go_OpenFileWithOptions E w bus opts = Return (OpenFileWithOptions E w bus opts)
     \<and> go_OpenFile E w bus = Return (OpenFile E w bus)
     \<and> go_OpenWithOptions E w bus a opts = Return (OpenWithOptions E w bus a opts)
     \<and> go_Open E w bus a = Return (Open E w bus a)"
    by (simp add: go_OpenFileWithOptions_eq go_OpenWithOptions_eq go_OpenFile_def OpenFile_def
        go_Open_def Open_def)
  have raw: "go_Write F w (Some c) buf = Return (Write F w c buf)
     \<and> go_WriteByte F w (Some c) b = Return (WriteByte F w c b)
     \<and> go_Read F w (Some c) buf = Return (Read F w c buf)"
    by (simp add: go_Write_def Write_def go_WriteByte_def WriteByte_def go_Read_def Read_def
        deref_def go_store_def go_reslice_def)
  have meths: "go_Close E w (Some c) = Return (Close E w c)
     \<and> go_SetAddr E w (Some c) a = Return (SetAddr E w c a)
     \<and> go_ReadReg E w (Some c) a reg = Return (ReadReg E w c a reg)
     \<and> go_WriteReg E w (Some c) a reg v = Return (WriteReg E w c a reg v)
     \<and> go_ReadWord E w (Some c) a reg = Return (ReadWord E w c a reg)
     \<and> go_WriteWord E w (Some c) a reg v16 = Return (WriteWord E w c a reg v16)
     \<and> go_ReadBlockData E w (Some c) a reg buf = Return (ReadBlockData E w c a reg buf)
     \<and> go_WriteBlockData E w (Some c) a reg buf = Return (WriteBlockData E w c a reg buf)"
    by (simp add: go_Close_Some go_SetAddr_def SetAddr_def go_Conn_addr_Some go_ReadReg_Some
        go_WriteReg_Some go_ReadWord_Some go_WriteWord_Some go_ReadBlockData_Some
        go_WriteBlockData_Some)
  have nil_addr: "go_Conn_addr E w None a = Panic"
    by (simp add: go_Conn_addr_def deref_def)
  have nils: "go_Write F w None buf = Panic
     \<and> go_WriteByte F w None b = Panic
     \<and> go_Read F w None buf = Panic
     \<and> go_Close E w None = Panic
     \<and> go_SetAddr E w None a = Panic
     \<and> go_ReadReg E w None a reg = Panic
     \<and> go_WriteReg E w None a reg v = Panic
     \<and> go_ReadWord E w None a reg = Panic
     \<and> go_WriteWord E w None a reg v16 = Panic"
    by (simp add: go_Write_def go_WriteByte_def go_Read_def go_Close_def go_SetAddr_def
        go_ReadReg_def go_WriteReg_def go_ReadWord_def go_WriteWord_def nil_addr deref_def
        go_store_def)
  have blk: "(length buf \<le> 32 \<longrightarrow>
          go_ReadBlockData E w None a reg buf = Panic
        \<and> go_WriteBlockData E w None a reg buf = Panic)
     \<and> (length buf > 32 \<longrightarrow>
          go_ReadBlockData E w None a reg buf = Return (w, Some errSMBusBlockDataMax, buf)
        \<and> go_WriteBlockData E w None a reg buf = Return (w, Some errSMBusBlockDataMax))"
    by (simp add: go_ReadBlockData_def go_WriteBlockData_def nil_addr i2cSMBusBlockMax_def)
  from opens go_opens raw meths nils blk show ?thesis
    by blast
qed

theorem public_operations_return_witness:
  "fst (sys_open echo_bus (kstate w0) (- 1)) = Inl (OsError 2)
   \<and> snd (OpenWithOptions echo_bus w0 (- 1) 0x50 (Some \<lparr>Force = True, BackupRestoreRegs = None\<rparr>))
       = Inl (OsError 2)
   \<and> snd (Open echo_bus w0 (- 1) 0x50) = Inl (OsError 2)
   \<and> snd (OpenFile echo_bus w0 (- 1)) = Inl (OsError 2)
   \<and> OpenWithOptions echo_bus w0 (- 1) 0x50 None = (w0, Inl (Errorf ''opts is nil''))
   \<and> go_OpenWithOptions echo_bus w0 (- 1) 0x50 None = Return (w0, Inl (Errorf ''opts is nil''))
   \<and> length [1, 2, 3 :: 8 word] \<le> 32
   \<and> go_ReadBlockData echo_bus w0 None 0x50 0x20 [1, 2, 3] = Panic
   \<and> go_WriteBlockData echo_bus w0 None 0x50 0x20 [1, 2, 3] = Panic
   \<and> length (replicate 33 (0 :: 8 word)) > 32
   \<and> go_ReadBlockData echo_bus w0 None 0x50 0x20 (replicate 33 0)
       = Return (w0, Some errSMBusBlockDataMax, replicate 33 0)
   \<and> go_Read mock_io w0 (Some c3) [0, 0] = Return (Read mock_io w0 c3 [0, 0])
   \<and> snd (Read mock_io w0 c3 [0, 0]) = (0, Some (OsError 5), [0, 0])"
proof -
  have h: "fst (sys_open echo_bus (kstate w0) (- 1)) = Inl (OsError 2)"
    by (simp add: mock_defs)
  have l1: "length [1, 2, 3 :: 8 word] \<le> 32" and l2: "length (replicate 33 (0 :: 8 word)) > 32"
    by simp_all
  have rd: "snd (Read mock_io w0 c3 [0, 0]) = (0, Some (OsError 5), [0, 0])"
    by code_simp
  note T1 = public_operations_return [where E = echo_bus and w = w0 and bus = "- 1"
      and a = "0x50" and opt = "\<lparr>Force = True, BackupRestoreRegs = None\<rparr>" and opts = None
      and reg = "0x20" and buf = "[1, 2, 3]" and F = mock_io and c = c3]
  note T2 = public_operations_return [where E = echo_bus and w = w0 and bus = "- 1"
      and a = "0x50" and opts = None and reg = "0x20" and buf = "replicate 33 0"
      and F = mock_io and c = c3]
  note T3 = public_operations_return [where E = echo_bus and w = w0 and F = mock_io and c = c3
      and buf = "[0, 0]"]
  from T1 h have a: "snd (OpenWithOptions echo_bus w0 (- 1) 0x50
                            (Some \<lparr>Force = True, BackupRestoreRegs = None\<rparr>)) = Inl (OsError 2)"
    "snd (Open echo_bus w0 (- 1) 0x50) = Inl (OsError 2)"
    "snd (OpenFile echo_bus w0 (- 1)) = Inl (OsError 2)"
    by blast+
  from T1 have b: "OpenWithOptions echo_bus w0 (- 1) 0x50 None = (w0, Inl (Errorf ''opts is nil''))"
    by blast
  from T1 have "go_OpenWithOptions echo_bus w0 (- 1) 0x50 None
                  = Return (OpenWithOptions echo_bus w0 (- 1) 0x50 None)"
    by blast
  with b have c: "go_OpenWithOptions echo_bus w0 (- 1) 0x50 None
                    = Return (w0, Inl (Errorf ''opts is nil''))"
    by simp
  from T1 l1 have d: "go_ReadBlockData echo_bus w0 None 0x50 0x20 [1, 2, 3] = Panic"
    "go_WriteBlockData echo_bus w0 None 0x50 0x20 [1, 2, 3] = Panic"
    by blast+
  from T2 l2 have e: "go_ReadBlockData echo_bus w0 None 0x50 0x20 (replicate 33 0)
       = Return (w0, Some errSMBusBlockDataMax, replicate 33 0)"
    by blast
  from T3 have f: "go_Read mock_io w0 (Some c3) [0, 0] = Return (Read mock_io w0 c3 [0, 0])"
    by blast
  from h a b c l1 d l2 e f rd show ?thesis
    by (simp only: simp_thms)
qed

section \<open>The address-less open and the backup list\<close>

text \<open>
  Claim C8. \<open>OpenFileWithOptions\<close> given options whose backup list is not empty
  returns no connection and the configuration error
  \<open>option BackupRestoreRegs is not supported with OpenFile()\<close>, and the world is
  unchanged: no file was opened, no call was issued. (\<open>OpenFile\<close> takes no options and
  passes a nil list, so it has no such input.)
\<close>

theorem OpenFile_rejects_backup_list:
  assumes "BackupRestoreRegs opts = Some regs" and "regs \<noteq> []"
  shows "OpenFileWithOptions E w bus (Some opts)
           = (w, Inl (Errorf ''option BackupRestoreRegs is not supported with OpenFile()''))"
  using assms by (simp add: OpenFileWithOptions_def)

theorem OpenFile_rejects_backup_list_witness:
  "BackupRestoreRegs \<lparr>Force = True, BackupRestoreRegs = Some [0x10]\<rparr> = Some [0x10]
   \<and> [0x10 :: 8 word] \<noteq> []
   \<and> OpenFileWithOptions echo_bus w0 1 (Some \<lparr>Force = True, BackupRestoreRegs = Some [0x10]\<rparr>)
       = (w0, Inl (Errorf ''option BackupRestoreRegs is not supported with OpenFile()''))"
  using OpenFile_rejects_backup_list [where opts = "\<lparr>Force = True, BackupRestoreRegs = Some [0x10]\<rparr>"
      and regs = "[0x10]" and E = echo_bus and w = w0 and bus = 1]
  by simp

section \<open>The legacy implementation\<close>

text \<open>
  Claim C9 says that the legacy implementation behaves like the options-based one with
  \<open>Force = false\<close> and an empty backup list, resource handling on error paths
  included. It does not on one path: when the bus opens (handle 3) and the selection of
  address 0x77 fails with EBUSY, the legacy \<open>Open\<close> returns the error and leaves the
  handle open (its trace ends with the failed ioctl), while the options-based \<open>Open\<close>
  closes the handle before returning the same error.
\<close>

theorem legacy_Open_leaks_handle:
  "snd (legacy_Open busy_bus w0 1 0x77) = Inl (Errno 16)
   \<and> trace (fst (legacy_Open busy_bus w0 1 0x77))
       = [EvOpen 1, EvIoctl 3 0x0703 (ArgInt 0x77)]
   \<and> snd (Open busy_bus w0 1 0x77) = Inl (Errno 16)
   \<and> trace (fst (Open busy_bus w0 1 0x77))
       = [EvOpen 1, EvIoctl 3 0x0703 (ArgInt 0x77), EvClose 3]"
  by code_simp

end
